theory Spec2Isabelle
  imports Complex_Main "HOL-Library.Multiset"
begin

section \<open>Data model\<close>

text \<open>
  A cell of a pandas column: a number (Python int or float, read as a real number) or a
  string. Group labels are cells (\<^verbatim>\<open>lvl1 : str/int/float\<close>); target values are
  numbers.
\<close>

datatype cell = Num real | Str string

text \<open>
  A float that a statistic or a percentile produces: a finite value or NaN. Finite values
  are real numbers; rounding and the infinities are outside the model.
\<close>

datatype fnum = Fin real | NaN

text \<open>
  Float subtraction and comparison: NaN absorbs the subtraction and fails every
  comparison.
\<close>

fun fsub :: "fnum \<Rightarrow> fnum \<Rightarrow> fnum" where
  "fsub (Fin a) (Fin b) = Fin (a - b)"
| "fsub a b = NaN"

fun fle :: "fnum \<Rightarrow> fnum \<Rightarrow> bool" where
  "fle (Fin a) (Fin b) = (a \<le> b)"
| "fle a b = False"

fun fgt :: "fnum \<Rightarrow> fnum \<Rightarrow> bool" where
  "fgt (Fin a) (Fin b) = (a > b)"
| "fgt a b = False"

fun fin :: "fnum \<Rightarrow> real" where
  "fin (Fin a) = a"
| "fin NaN = 0"

text \<open>
  The exceptions a call can end with: \<^verbatim>\<open>exit(msg)\<close> raises SystemExit with the
  message; the others come from pandas and numpy lookups or from the statistic.
\<close>

datatype error = SystemExit string | KeyError | TypeError | ValueError | IndexError
  | OtherError string

text \<open>
  A row of the dataset after the projection \<^verbatim>\<open>df[[levels, target]]\<close>: the value of
  the grouping column and the value of the target column. The dataset is the list of its
  rows in order, with the default index \<open>0, 1, ...\<close>.
\<close>

record row =
  level :: cell
  target :: real

text \<open>
  A frame whose columns carry the integer labels \<open>0, 1, ...\<close> (what
  \<^verbatim>\<open>pd.concat(..., axis=1, ignore_index=True)\<close> builds): the list of its columns,
  column \<open>k\<close> at position \<open>k\<close>. Its number of rows is the length of column 0.
\<close>

type_synonym frame = "cell list list"

text \<open>
  The statistic \<^verbatim>\<open>func\<close>: a caller-supplied function applied to a column. It
  returns a float, which may be NaN, or raises.
\<close>

type_synonym statistic = "cell list \<Rightarrow> error + fnum"

text \<open>
  The random source. \<^verbatim>\<open>Series.sample(n, replace)\<close> is called without a
  \<^verbatim>\<open>random_state\<close>, so pandas draws from numpy's process-wide generator:
  \<^verbatim>\<open>choice(len, size=n, replace=replace)\<close> returns \<open>n\<close> positions and advances the
  generator. The generator state \<open>'g\<close> is threaded through every call; numpy's
  \<^verbatim>\<open>choice\<close> itself is a parameter.
\<close>

type_synonym 'g choice = "'g \<Rightarrow> nat \<Rightarrow> bool \<Rightarrow> nat list \<times> 'g"

text \<open>
  What numpy promises of \<^verbatim>\<open>choice(n, size=n, replace)\<close>: with replacement, \<open>n\<close>
  positions below \<open>n\<close>; without replacement, a permutation of \<open>0, ..., n - 1\<close>.
  For \<open>n = 0\<close> both are the empty draw, which numpy returns when no sample is asked
  for.
\<close>

definition valid_choice :: "'g choice \<Rightarrow> bool" where
  "valid_choice ch \<longleftrightarrow>
     (\<forall>g n. length (fst (ch g n True)) = n \<and> list_all (\<lambda>i. i < n) (fst (ch g n True))
        \<and> mset (fst (ch g n False)) = mset [0..<n])"

section \<open>Frame operations used by the engine\<close>

text \<open>\<^verbatim>\<open>series.sample(n=len(series), replace=replace).reset_index(drop=True)\<close>\<close>

definition sample :: "'g choice \<Rightarrow> 'g \<Rightarrow> real list \<Rightarrow> bool \<Rightarrow> real list \<times> 'g" where
  "sample ch g xs replace =
     (let (idx, g') = ch g (length xs) replace in (map (\<lambda>i. xs ! i) idx, g'))"

text \<open>\<^verbatim>\<open>pd.concat([fr, b], axis=1, ignore_index=True)\<close>\<close>

definition concat_col :: "frame \<Rightarrow> real list \<Rightarrow> frame" where
  "concat_col fr b = fr @ [map Num b]"

text \<open>
  The resampling loop \<^verbatim>\<open>for i in range(0, R)\<close>: each iteration draws one resample
  of the target column and appends it as a new column.
\<close>

fun resample_loop :: "'g choice \<Rightarrow> real list \<Rightarrow> bool \<Rightarrow> nat \<Rightarrow> frame \<Rightarrow> 'g \<Rightarrow> frame \<times> 'g" where
  "resample_loop ch tgt replace 0 fr g = (fr, g)"
| "resample_loop ch tgt replace (Suc k) fr g =
     (let (b, g') = sample ch g tgt replace
      in resample_loop ch tgt replace k (concat_col fr b) g')"

text \<open>\<^verbatim>\<open>fr[fr.loc[:, 0] == lvl]\<close>: the rows whose cell in column 0 equals the label.\<close>

definition rows_where :: "frame \<Rightarrow> bool list \<Rightarrow> frame" where
  "rows_where fr keep = map (\<lambda>c. map fst (filter snd (zip c keep))) fr"

definition rows_with_label :: "frame \<Rightarrow> cell \<Rightarrow> frame" where
  "rows_with_label fr lvl = rows_where fr (map (\<lambda>v. v = lvl) (fr ! 0))"

text \<open>
  \<^verbatim>\<open>fr.loc[:, a:b]\<close> on integer column labels: the columns labelled \<open>a\<close> to \<open>b\<close>,
  both ends included.
\<close>

definition loc_cols :: "frame \<Rightarrow> nat \<Rightarrow> int \<Rightarrow> frame" where
  "loc_cols fr a b = take (nat (b + 1 - int a)) (drop a fr)"

text \<open>
  \<^verbatim>\<open>fr.apply(func, axis=0)\<close> on a frame of \<open>nrows\<close> rows. With rows and columns,
  pandas calls the statistic on each column in turn, and the first exception ends the
  call. On a frame without rows or without columns pandas calls the statistic once on an
  empty float column: its value is the result for every column, and when it raises,
  pandas swallows the exception and returns the empty frame as it is, which holds no
  value.
\<close>

fun apply_each :: "statistic \<Rightarrow> frame \<Rightarrow> error + fnum list" where
  "apply_each func [] = Inr []"
| "apply_each func (c # cs) =
     (case func c of
        Inl e \<Rightarrow> Inl e
      | Inr v \<Rightarrow> (case apply_each func cs of Inl e \<Rightarrow> Inl e | Inr vs \<Rightarrow> Inr (v # vs)))"

definition apply_cols :: "statistic \<Rightarrow> nat \<Rightarrow> frame \<Rightarrow> error + fnum list" where
  "apply_cols func nrows fr =
     (if nrows = 0 \<or> fr = [] then
        (case func [] of Inr v \<Rightarrow> Inr (replicate (length fr) v) | Inl e \<Rightarrow> Inr [])
      else apply_each func fr)"

section \<open>The class Resample\<close>

record Resample = "method" :: string

definition Resample_init :: "string \<Rightarrow> error + Resample" where
  "Resample_init resampling_method =
     (if resampling_method \<noteq> ''bootstrap'' \<and> resampling_method \<noteq> ''permutation''
      then Inl (SystemExit ''Please set resampling method as 'bootstrap' or 'permutation' '')
      else Inr \<lparr>method = resampling_method\<rparr>)"

text \<open>
  Lines 98 to 111 of \<^verbatim>\<open>run_hypothesis\<close>, after the resampling block: the statistic
  of each resampled column per group, their differences and the p-value, in which a
  difference counts when \<^verbatim>\<open>(d - obs) >= 0\<close>.
  With \<open>R < 1\<close> the loop appended no column, the frame still has its single column under
  the name of the grouping column, and the lookup \<^verbatim>\<open>resampled_.loc[:, 0]\<close> raises
  KeyError.
\<close>

definition resampled_statistic ::
  "cell \<Rightarrow> cell \<Rightarrow> int \<Rightarrow> statistic \<Rightarrow> fnum \<Rightarrow> frame \<times> 'g
     \<Rightarrow> error + ((frame \<times> fnum list \<times> real) \<times> 'g)" where
  "resampled_statistic lvl1 lvl2 R func obs_diff_statistic st =
     (let (resampled, g') = st
      in if R < 1 then Inl KeyError
         else
           (let resampled1 = rows_with_label resampled lvl1;
                resampled2 = rows_with_label resampled lvl2
            in case apply_cols func (length (resampled1 ! 0)) (loc_cols resampled1 1 R) of
                 Inl e \<Rightarrow> Inl e
               | Inr f_resampled1 \<Rightarrow>
                   (case apply_cols func (length (resampled2 ! 0)) (loc_cols resampled2 1 R) of
                      Inl e \<Rightarrow> Inl e
                    | Inr f_resampled2 \<Rightarrow>
                        (let resampled_diff = map2 fsub f_resampled1 f_resampled2;
                             pval = real (length (filter
                                      (\<lambda>d. fle (Fin 0) (fsub d obs_diff_statistic)) resampled_diff))
                                    / real_of_int R
                         in Inr ((resampled, resampled_diff, pval), g')))))"

text \<open>
  \<^verbatim>\<open>run_hypothesis(self, df, target, levels, lvl1, lvl2, R, func)\<close>. The result is
  the triple the code returns, with the generator state the call leaves behind. The
  statistic of both groups is taken at line 79, before the resampling block.
\<close>

definition run_hypothesis ::
  "Resample \<Rightarrow> 'g choice \<Rightarrow> 'g \<Rightarrow> row list \<Rightarrow> cell \<Rightarrow> cell \<Rightarrow> int \<Rightarrow> statistic
     \<Rightarrow> error + ((frame \<times> fnum list \<times> real) \<times> 'g)" where
  "run_hypothesis self ch g df0 lvl1 lvl2 R func =
     (let df = filter (\<lambda>r. level r = lvl1 \<or> level r = lvl2) df0;
          x = map target (filter (\<lambda>r. level r = lvl1) df);
          y = map target (filter (\<lambda>r. level r = lvl2) df)
      in case func (map Num x) of
           Inl e \<Rightarrow> Inl e
         | Inr fx \<Rightarrow>
             (case func (map Num y) of
                Inl e \<Rightarrow> Inl e
              | Inr fy \<Rightarrow>
                  (let obs_diff_statistic = fsub fx fy;
                       resampled0 = [map level df]
                   in if method self = ''bootstrap'' then
                        resampled_statistic lvl1 lvl2 R func obs_diff_statistic
                          (resample_loop ch (map target df) True (nat R) resampled0 g)
                      else if method self = ''permutation'' then
                        resampled_statistic lvl1 lvl2 R func obs_diff_statistic
                          (resample_loop ch (map target df) False (nat R) resampled0 g)
                      else Inl (SystemExit
                        ''Please set resampling method as 'bootstrap' or 'permutation' ''))))"

text \<open>
  numpy's linear interpolation at a position of a sorted array: between the order
  statistics just below and just above the position, the upper one clipped to the last.
\<close>

definition lerp_at :: "real list \<Rightarrow> real \<Rightarrow> real" where
  "lerp_at s virtual_index =
     (let previous_index = nat \<lfloor>virtual_index\<rfloor>;
          next_index = min (previous_index + 1) (length s - 1);
          gamma = virtual_index - real previous_index
      in s ! previous_index + (s ! next_index - s ! previous_index) * gamma)"

text \<open>
  \<^verbatim>\<open>np.percentile(a, q)\<close> with numpy's default method: linear interpolation at the
  position \<open>(n - 1) * q / 100\<close> of the sorted values. numpy raises ValueError when \<open>q\<close>
  is outside \<open>[0, 100]\<close>, fails on an empty array with IndexError (some versions give
  NaN there), and gives NaN when a value is NaN.
\<close>

definition percentile :: "fnum list \<Rightarrow> real \<Rightarrow> error + fnum" where
  "percentile a q =
     (if q < 0 \<or> 100 < q then Inl ValueError
      else if a = [] then Inl IndexError
      else if NaN \<in> set a then Inr NaN
      else Inr (Fin (lerp_at (sort (map fin a)) ((real (length a) - 1) * (q / 100)))))"

text \<open>
  \<^verbatim>\<open>estimate_ci(self, df, target, levels, lvl, R, func, alpha_level)\<close>.
  \<^verbatim>\<open>df.reset_index()\<close> keeps the old index as a column, so
  \<^verbatim>\<open>df.drop(columns=[target])\<close> starts the frame with two columns, the old index and
  the grouping column, and the resamples are appended behind them.
  With \<open>R < 1\<close> nothing is appended, the two columns keep their names, and the slice
  \<^verbatim>\<open>df_.loc[:, 1:R]\<close> by integers raises TypeError.
\<close>

definition estimate_ci ::
  "Resample \<Rightarrow> 'g choice \<Rightarrow> 'g \<Rightarrow> row list \<Rightarrow> cell \<Rightarrow> int \<Rightarrow> statistic \<Rightarrow> real
     \<Rightarrow> error + ((fnum list \<times> fnum \<times> fnum) \<times> 'g)" where
  "estimate_ci self ch g df0 lvl R func alpha_level =
     (if method self = ''bootstrap'' then
        (let kept = filter (\<lambda>ir. level (snd ir) = lvl) (zip [0..<length df0] df0);
             df = map snd kept;
             df_0 = [map (\<lambda>ir. Num (real (fst ir))) kept, map level df];
             (df', g') = resample_loop ch (map target df) True (nat R) df_0 g
         in if R < 1 then Inl TypeError
            else
              (case apply_cols func (length (df' ! 0)) (loc_cols df' 1 R) of
                 Inl e \<Rightarrow> Inl e
               | Inr bootstrapped_stat \<Rightarrow>
                   (case percentile bootstrapped_stat (100 - 0.5 * 100 * alpha_level) of
                      Inl e \<Rightarrow> Inl e
                    | Inr upper \<Rightarrow>
                        (case percentile bootstrapped_stat (0.5 * 100 * alpha_level) of
                           Inl e \<Rightarrow> Inl e
                         | Inr lower \<Rightarrow> Inr ((bootstrapped_stat, (upper, lower)), g')))))
      else Inl (SystemExit ''confidence interval can be estimated only for bootstrap method''))"

section \<open>The legacy classes Bootstrap and permutation\<close>

text \<open>
  Both classes keep the two labels in \<^verbatim>\<open>self.lvl1\<close> and \<^verbatim>\<open>self.lvl2\<close>.
  \<^verbatim>\<open>calculate_pvalue\<close> returns the differences only; the observed difference and
  the p-value are printed, and the height \<^verbatim>\<open>yp\<close> of the marker line goes to the
  plot. The record holds all four.
\<close>

record Bootstrap =
  boot_lvl1 :: cell
  boot_lvl2 :: cell

record permutation =
  perm_lvl1 :: cell
  perm_lvl2 :: cell

record pvalue_run =
  printed_obs :: fnum
  printed_pval :: real
  plotted_yp :: int
  returned_diff :: "fnum list"

text \<open>
  \<^verbatim>\<open>np.abs(len(d[d > np.percentile(d, 45)]) - len(d[d > np.percentile(d, 55)]))\<close>
\<close>

definition marker_height :: "fnum list \<Rightarrow> error + int" where
  "marker_height d =
     (case percentile d 45 of
        Inl e \<Rightarrow> Inl e
      | Inr p45 \<Rightarrow>
          (case percentile d 55 of
             Inl e \<Rightarrow> Inl e
           | Inr p55 \<Rightarrow>
               Inr \<bar>int (length (filter (\<lambda>v. fgt v p45) d)) - int (length (filter (\<lambda>v. fgt v p55) d))\<bar>))"

text \<open>\<^verbatim>\<open>Bootstrap.calculate_pvalue(self, df, B, func)\<close>\<close>

definition Bootstrap_calculate_pvalue ::
  "Bootstrap \<Rightarrow> 'g choice \<Rightarrow> 'g \<Rightarrow> row list \<Rightarrow> int \<Rightarrow> statistic \<Rightarrow> error + (pvalue_run \<times> 'g)" where
  "Bootstrap_calculate_pvalue self ch g df0 B func =
     (let df = filter (\<lambda>r. level r = boot_lvl1 self \<or> level r = boot_lvl2 self) df0;
          x = map target (filter (\<lambda>r. level r = boot_lvl1 self) df);
          y = map target (filter (\<lambda>r. level r = boot_lvl2 self) df)
      in case func (map Num x) of
           Inl e \<Rightarrow> Inl e
         | Inr fx \<Rightarrow>
             (case func (map Num y) of
                Inl e \<Rightarrow> Inl e
              | Inr fy \<Rightarrow>
                  (let obs_diff_statistic = fsub fx fy;
                       (df', g') = resample_loop ch (map target df) True (nat B) [map level df] g
                   in if B < 1 then Inl KeyError
                      else
                        (let bootstrapped1 = rows_with_label df' (boot_lvl1 self);
                             bootstrapped2 = rows_with_label df' (boot_lvl2 self)
                         in case apply_cols func (length (bootstrapped1 ! 0))
                                   (loc_cols bootstrapped1 1 B) of
                              Inl e \<Rightarrow> Inl e
                            | Inr m_bootstrapped1 \<Rightarrow>
                                (case apply_cols func (length (bootstrapped2 ! 0))
                                        (loc_cols bootstrapped2 1 B) of
                                   Inl e \<Rightarrow> Inl e
                                 | Inr m_bootstrapped2 \<Rightarrow>
                                     (let boot_m_diff = map2 fsub m_bootstrapped1 m_bootstrapped2;
                                          pval = real (length (filter
                                                   (\<lambda>d. fle (Fin 0) (fsub d obs_diff_statistic))
                                                   boot_m_diff)) / real_of_int B
                                      in case marker_height boot_m_diff of
                                           Inl e \<Rightarrow> Inl e
                                         | Inr yp \<Rightarrow>
                                             Inr (\<lparr>printed_obs = obs_diff_statistic,
                                                   printed_pval = pval, plotted_yp = yp,
                                                   returned_diff = boot_m_diff\<rparr>, g')))))))"

text \<open>\<^verbatim>\<open>permutation.calculate_pvalue(self, df, P, func)\<close>\<close>

definition permutation_calculate_pvalue ::
  "permutation \<Rightarrow> 'g choice \<Rightarrow> 'g \<Rightarrow> row list \<Rightarrow> int \<Rightarrow> statistic \<Rightarrow> error + (pvalue_run \<times> 'g)" where
  "permutation_calculate_pvalue self ch g df0 P func =
     (let df = filter (\<lambda>r. level r = perm_lvl1 self \<or> level r = perm_lvl2 self) df0;
          x = map target (filter (\<lambda>r. level r = perm_lvl1 self) df);
          y = map target (filter (\<lambda>r. level r = perm_lvl2 self) df)
      in case func (map Num x) of
           Inl e \<Rightarrow> Inl e
         | Inr fx \<Rightarrow>
             (case func (map Num y) of
                Inl e \<Rightarrow> Inl e
              | Inr fy \<Rightarrow>
                  (let obs_diff_statistic = fsub fx fy;
                       (df', g') = resample_loop ch (map target df) False (nat P) [map level df] g
                   in if P < 1 then Inl KeyError
                      else
                        (let perm1 = rows_with_label df' (perm_lvl1 self);
                             perm2 = rows_with_label df' (perm_lvl2 self)
                         in case apply_cols func (length (perm1 ! 0)) (loc_cols perm1 1 P) of
                              Inl e \<Rightarrow> Inl e
                            | Inr m_perm1 \<Rightarrow>
                                (case apply_cols func (length (perm2 ! 0)) (loc_cols perm2 1 P) of
                                   Inl e \<Rightarrow> Inl e
                                 | Inr m_perm2 \<Rightarrow>
                                     (let perm_m_diff = map2 fsub m_perm1 m_perm2;
                                          pval = real (length (filter
                                                   (\<lambda>d. fle (Fin 0) (fsub d obs_diff_statistic))
                                                   perm_m_diff)) / real_of_int P
                                      in case marker_height perm_m_diff of
                                           Inl e \<Rightarrow> Inl e
                                         | Inr yp \<Rightarrow>
                                             Inr (\<lparr>printed_obs = obs_diff_statistic,
                                                   printed_pval = pval, plotted_yp = yp,
                                                   returned_diff = perm_m_diff\<rparr>, g')))))))"

section \<open>Concrete statistics and a replayed random source\<close>

text \<open>
  The numbers of a column, when all its cells are numbers.
\<close>

fun numbers :: "cell list \<Rightarrow> real list option" where
  "numbers [] = Some []"
| "numbers (Num v # cs) = (case numbers cs of None \<Rightarrow> None | Some vs \<Rightarrow> Some (v # vs))"
| "numbers (Str s # cs) = None"

text \<open>
  \<^verbatim>\<open>np.mean\<close>: the mean of a column of numbers, NaN on the empty column, TypeError on
  a column with a string.
\<close>

definition np_mean :: statistic where
  "np_mean c =
     (case numbers c of
        None \<Rightarrow> Inl TypeError
      | Some vs \<Rightarrow> if vs = [] then Inr NaN else Inr (Fin (sum_list vs / real (length vs))))"

text \<open>
  The statistic of the docstrings, \<^verbatim>\<open>def my_func(x): return np.percentile(x, q)\<close>:
  it raises on the empty column, and TypeError on a column with a string.
\<close>

definition np_percentile :: "real \<Rightarrow> statistic" where
  "np_percentile q c =
     (case numbers c of
        None \<Rightarrow> Inl TypeError
      | Some vs \<Rightarrow> percentile (map Fin vs) q)"

text \<open>
  A random source that replays recorded draws: its state is the list of the draws still
  to come. A recorded draw that numpy could not have produced for the request is replaced
  by the identity draw \<open>0, ..., n - 1\<close>, which is also what an exhausted source returns.
\<close>

fun replay_choice :: "nat list list \<Rightarrow> nat \<Rightarrow> bool \<Rightarrow> nat list \<times> nat list list" where
  "replay_choice [] n replace = ([0..<n], [])"
| "replay_choice (t # ts) n replace =
     (if (if replace then length t = n \<and> list_all (\<lambda>i. i < n) t else sort t = [0..<n])
      then (t, ts) else ([0..<n], ts))"

text \<open>The datasets of the examples.\<close>

definition dfAB :: "row list" where
  "dfAB = [\<lparr>level = Str ''A'', target = 4\<rparr>, \<lparr>level = Str ''A'', target = 3\<rparr>,
           \<lparr>level = Str ''B'', target = 7\<rparr>, \<lparr>level = Str ''B'', target = 5\<rparr>]"

definition df10 :: "row list" where
  "df10 = [\<lparr>level = Num 0, target = 10\<rparr>, \<lparr>level = Num 0, target = 10\<rparr>,
           \<lparr>level = Num 0, target = 10\<rparr>]"

definition df5 :: "row list" where
  "df5 = [\<lparr>level = Num 5, target = 0\<rparr>, \<lparr>level = Num 5, target = 5\<rparr>,
          \<lparr>level = Num 5, target = 10\<rparr>]"

definition df7 :: "row list" where
  "df7 = [\<lparr>level = Num 7, target = 7\<rparr>, \<lparr>level = Num 7, target = 7\<rparr>]"

section \<open>The quantities the specification names\<close>

text \<open>
  The rows the comparison is made on, and the part of a column on the rows that carry a
  label, given the column of the labels.
\<close>

definition restricted :: "row list \<Rightarrow> cell \<Rightarrow> cell \<Rightarrow> row list" where
  "restricted df lvl1 lvl2 = filter (\<lambda>r. level r = lvl1 \<or> level r = lvl2) df"

definition select_rows :: "cell list \<Rightarrow> cell \<Rightarrow> cell list \<Rightarrow> cell list" where
  "select_rows labels lvl c = map fst (filter snd (zip c (map (\<lambda>v. v = lvl) labels)))"

text \<open>
  The target values of the rows of the dataset that carry a label, as the column the
  statistic is applied to.
\<close>

definition group_values :: "row list \<Rightarrow> cell \<Rightarrow> cell list" where
  "group_values df lvl = map Num (map target (filter (\<lambda>r. level r = lvl) df))"

text \<open>
  A statistic that is total over the non-empty columns of numbers: it returns a float on
  each of them.
\<close>

definition total_statistic :: "statistic \<Rightarrow> bool" where
  "total_statistic func \<longleftrightarrow> (\<forall>xs. xs \<noteq> [] \<longrightarrow> (\<exists>v. func (map Num xs) = Inr v))"

text \<open>
  The observed difference as the specification words it: the statistic of the target
  values labelled \<open>lvl1\<close> minus that of those labelled \<open>lvl2\<close>, both taken from the
  dataset itself. It is a number where both statistics return.
\<close>

definition obs_diff :: "statistic \<Rightarrow> row list \<Rightarrow> cell \<Rightarrow> cell \<Rightarrow> fnum" where
  "obs_diff func df lvl1 lvl2 =
     (case func (group_values df lvl1) of
        Inl e \<Rightarrow> NaN
      | Inr a \<Rightarrow> (case func (group_values df lvl2) of Inl e \<Rightarrow> NaN | Inr b \<Rightarrow> fsub a b))"

section \<open>Lemmas on the frame operations\<close>

lemma restrict_conj_left: "((level x = a \<or> level x = b) \<and> level x = a) = (level x = a)"
  by auto

lemma restrict_conj_right: "((level x = a \<or> level x = b) \<and> level x = b) = (level x = b)"
  by auto

lemma group_values_restricted_left:
  "group_values (restricted df a b) a = group_values df a"
  by (simp add: group_values_def restricted_def restrict_conj_left)

lemma group_values_restricted_right:
  "group_values (restricted df a b) b = group_values df b"
  by (simp add: group_values_def restricted_def restrict_conj_right)

lemma fle_fsub: "fle (Fin 0) (fsub d obs) = fle obs d"
  by (cases d; cases obs) auto

lemma sample_length:
  assumes "valid_choice ch"
  shows "length (fst (sample ch g xs replace)) = length xs"
proof (cases replace)
  case True
  have "length (fst (ch g (length xs) True)) = length xs"
    using assms unfolding valid_choice_def by blast
  then show ?thesis using True by (simp add: sample_def case_prod_beta)
next
  case False
  have "mset (fst (ch g (length xs) False)) = mset [0..<length xs]"
    using assms unfolding valid_choice_def by blast
  then have "length (fst (ch g (length xs) False)) = length [0..<length xs]"
    by (rule mset_eq_length)
  then show ?thesis using False by (simp add: sample_def case_prod_beta)
qed

lemma sample_permutation:
  assumes "valid_choice ch"
  shows "mset (fst (sample ch g xs False)) = mset xs"
proof -
  have idx: "mset (fst (ch g (length xs) False)) = mset [0..<length xs]"
    using assms unfolding valid_choice_def by blast
  have "mset (map (\<lambda>i. xs ! i) (fst (ch g (length xs) False)))
          = image_mset (\<lambda>i. xs ! i) (mset (fst (ch g (length xs) False)))"
    by simp
  also have "\<dots> = image_mset (\<lambda>i. xs ! i) (mset [0..<length xs])"
    by (simp only: idx)
  also have "\<dots> = mset (map (\<lambda>i. xs ! i) [0..<length xs])" by simp
  also have "\<dots> = mset xs" by (simp only: map_nth)
  finally show ?thesis by (simp add: sample_def case_prod_beta)
qed

text \<open>
  The loop keeps the columns it starts from and appends one column per iteration, each
  the cells of a draw from the target column.
\<close>

lemma resample_loop_prefix:
  "\<exists>bs. fst (resample_loop ch tgt rep k fr g) = fr @ map (map Num) bs \<and> length bs = k"
proof (induction k arbitrary: fr g)
  case 0
  show ?case by simp
next
  case (Suc k)
  obtain b g' where s: "sample ch g tgt rep = (b, g')" by (cases "sample ch g tgt rep")
  obtain bs where c: "fst (resample_loop ch tgt rep k (fr @ [map Num b]) g')
                        = (fr @ [map Num b]) @ map (map Num) bs" "length bs = k"
    using Suc[of "fr @ [map Num b]" g'] by blast
  have "fst (resample_loop ch tgt rep (Suc k) fr g) = fr @ map (map Num) (b # bs)
      \<and> length (b # bs) = Suc k"
    using c s by (simp add: concat_col_def)
  then show ?case by blast
qed

lemma resample_loop_draws:
  assumes "valid_choice ch"
  shows "\<exists>bs. fst (resample_loop ch tgt rep k fr g) = fr @ map (map Num) bs \<and> length bs = k
           \<and> (\<forall>b\<in>set bs. length b = length tgt \<and> (\<not> rep \<longrightarrow> mset b = mset tgt))"
proof (induction k arbitrary: fr g)
  case 0
  show ?case by simp
next
  case (Suc k)
  obtain b g' where s: "sample ch g tgt rep = (b, g')" by (cases "sample ch g tgt rep")
  have bl: "length b = length tgt" using sample_length[OF assms, of g tgt rep] s by simp
  have bp: "\<not> rep \<longrightarrow> mset b = mset tgt"
    using sample_permutation[OF assms, of g tgt] s by auto
  obtain bs where c: "fst (resample_loop ch tgt rep k (fr @ [map Num b]) g')
                        = (fr @ [map Num b]) @ map (map Num) bs" "length bs = k"
      "\<forall>b\<in>set bs. length b = length tgt \<and> (\<not> rep \<longrightarrow> mset b = mset tgt)"
    using Suc[of "fr @ [map Num b]" g'] by blast
  have "fst (resample_loop ch tgt rep (Suc k) fr g) = fr @ map (map Num) (b # bs)
      \<and> length (b # bs) = Suc k
      \<and> (\<forall>b\<in>set (b # bs). length b = length tgt \<and> (\<not> rep \<longrightarrow> mset b = mset tgt))"
    using c s bl bp by (simp add: concat_col_def)
  then show ?case by blast
qed

lemma rows_with_label_select:
  "rows_with_label fr lvl = map (select_rows (fr ! 0) lvl) fr"
  by (simp add: rows_with_label_def rows_where_def select_rows_def)

lemma select_rows_labels:
  "length (select_rows labels lvl labels) = length (filter (\<lambda>v. v = lvl) labels)"
  by (induction labels) (auto simp: select_rows_def)

lemma select_rows_Num:
  "length b = length labels \<Longrightarrow>
   \<exists>zs. select_rows labels lvl (map Num b) = map Num zs
         \<and> length zs = length (filter (\<lambda>v. v = lvl) labels)"
proof (induction b arbitrary: labels)
  case Nil
  then show ?case by (simp add: select_rows_def)
next
  case (Cons x b)
  then obtain l ls where l: "labels = l # ls" by (cases labels) auto
  then have "length b = length ls" using Cons.prems by simp
  then obtain zs where zs: "select_rows ls lvl (map Num b) = map Num zs"
      "length zs = length (filter (\<lambda>v. v = lvl) ls)"
    using Cons.IH by blast
  show ?case
  proof (cases "l = lvl")
    case True
    have "select_rows labels lvl (map Num (x # b)) = map Num (x # zs)"
      using zs(1) True l by (simp add: select_rows_def)
    then show ?thesis using zs(2) True l by (intro exI[of _ "x # zs"]) simp
  next
    case False
    have "select_rows labels lvl (map Num (x # b)) = map Num zs"
      using zs(1) False l by (simp add: select_rows_def)
    then show ?thesis using zs(2) False l by (intro exI[of _ zs]) simp
  qed
qed

lemma apply_each_map:
  "apply_each func fr = Inr vs \<Longrightarrow> map func fr = map Inr vs"
  by (induction fr arbitrary: vs) (auto split: sum.splits)

lemma apply_each_returns:
  "\<forall>c\<in>set fr. \<exists>v. func c = Inr v \<Longrightarrow> \<exists>vs. apply_each func fr = Inr vs"
  by (induction fr) (auto split: sum.splits)

lemma apply_cols_returns:
  assumes "\<forall>c\<in>set fr. \<exists>v. func c = Inr v" and "n = 0 \<longrightarrow> (\<forall>c\<in>set fr. c = [])"
  shows "\<exists>vs. apply_cols func n fr = Inr vs \<and> map func fr = map Inr vs"
proof (cases "n = 0 \<or> fr = []")
  case True
  show ?thesis
  proof (cases fr)
    case Nil
    then show ?thesis by (simp add: apply_cols_def split: sum.splits)
  next
    case (Cons c cs)
    then have n0: "n = 0" using True by simp
    then have all: "\<forall>c\<in>set fr. c = []" using assms(2) by simp
    then have "c = []" using Cons by simp
    then obtain v where v: "func [] = Inr v" using assms(1) Cons by auto
    have "map func fr = map (\<lambda>_. Inr v) fr"
      using all v by (intro map_cong) auto
    also have "\<dots> = map Inr (replicate (length fr) v)"
      by (simp add: map_replicate_const)
    finally show ?thesis using n0 v by (simp add: apply_cols_def)
  qed
next
  case False
  obtain vs where "apply_each func fr = Inr vs" using apply_each_returns[OF assms(1)] by blast
  then show ?thesis using False apply_each_map[of func fr vs] by (simp add: apply_cols_def)
qed

lemma apply_cols_length:
  assumes "apply_cols func n fr = Inr vs" and "n = 0 \<longrightarrow> (\<exists>v. func [] = Inr v)"
  shows "length vs = length fr"
proof (cases "n = 0 \<or> fr = []")
  case True
  show ?thesis
  proof (cases "fr = []")
    case True
    then show ?thesis using assms(1) by (auto simp: apply_cols_def split: sum.splits)
  next
    case False
    then have "n = 0" using True by simp
    then obtain v where "func [] = Inr v" using assms(2) by blast
    then show ?thesis using assms(1) \<open>n = 0\<close> by (auto simp: apply_cols_def)
  qed
next
  case False
  then have "apply_each func fr = Inr vs" using assms(1) by (simp add: apply_cols_def)
  then have "map func fr = map Inr vs" by (rule apply_each_map)
  then show ?thesis by (metis length_map)
qed

section \<open>Lemmas on the hypothesis test\<close>

lemma run_hypothesis_unfold:
  assumes "func (group_values df lvl1) = Inr a" and "func (group_values df lvl2) = Inr b"
    and "method self = ''bootstrap'' \<or> method self = ''permutation''"
  shows "run_hypothesis self ch g df lvl1 lvl2 R func =
           resampled_statistic lvl1 lvl2 R func (fsub a b)
             (resample_loop ch (map target (restricted df lvl1 lvl2)) (method self = ''bootstrap'')
                (nat R) [map level (restricted df lvl1 lvl2)] g)"
proof -
  have x: "func (map Num (map target (filter (\<lambda>r. level r = lvl1)
             (filter (\<lambda>r. level r = lvl1 \<or> level r = lvl2) df)))) = Inr a"
    using assms(1) group_values_restricted_left[of df lvl1 lvl2]
    by (simp add: group_values_def restricted_def)
  have y: "func (map Num (map target (filter (\<lambda>r. level r = lvl2)
             (filter (\<lambda>r. level r = lvl1 \<or> level r = lvl2) df)))) = Inr b"
    using assms(2) group_values_restricted_right[of df lvl1 lvl2]
    by (simp add: group_values_def restricted_def)
  show ?thesis
    unfolding run_hypothesis_def Let_def x y restricted_def using assms(3) by auto
qed

lemma labels_count:
  "length (filter (\<lambda>v. v = lvl) (map level df)) = length (filter (\<lambda>r. level r = lvl) df)"
  by (induction df) auto

lemma group_values_empty:
  "length (filter (\<lambda>r. level r = lvl) df) = 0 \<Longrightarrow> group_values df lvl = []"
  by (simp add: group_values_def)

lemma loc_cols_tail:
  assumes "1 \<le> R" and "length cs = nat R"
  shows "loc_cols (c # cs) 1 R = cs"
  using assms by (simp add: loc_cols_def)

text \<open>
  The statistics of one group over the resampled columns: they are taken on the part of
  each resampled column that lies on the rows of the group, and there are \<open>R\<close> of them.
\<close>

lemma group_stats_length:
  assumes R1: "1 \<le> R"
    and loop: "resample_loop ch (map target dfr) rep (nat R) [map level dfr] g = (fr, g')"
    and hx: "func (group_values dfr lvl) = Inr a"
    and ap: "apply_cols func (length (rows_with_label fr lvl ! 0))
               (loc_cols (rows_with_label fr lvl) 1 R) = Inr s"
  shows "length s = nat R"
proof -
  obtain bs where fr: "fr = [map level dfr] @ map (map Num) bs" and lb: "length bs = nat R"
    using resample_loop_prefix[of ch "map target dfr" rep "nat R" "[map level dfr]" g] loop
    by auto
  let ?labels = "map level dfr"
  have f0: "fr ! 0 = ?labels" by (simp add: fr)
  have rows: "rows_with_label fr lvl
                = select_rows ?labels lvl ?labels # map (select_rows ?labels lvl) (map (map Num) bs)"
    unfolding rows_with_label_select f0 by (simp add: fr)
  have n: "length (rows_with_label fr lvl ! 0) = length (filter (\<lambda>r. level r = lvl) dfr)"
    unfolding rows by (simp add: select_rows_labels o_def)
  have cols: "loc_cols (rows_with_label fr lvl) 1 R
                = map (select_rows ?labels lvl) (map (map Num) bs)"
    unfolding rows by (rule loc_cols_tail[OF R1]) (simp add: lb)
  have "length (rows_with_label fr lvl ! 0) = 0 \<longrightarrow> (\<exists>v. func [] = Inr v)"
    using hx n group_values_empty[of lvl dfr] by auto
  from apply_cols_length[OF ap this] show ?thesis unfolding cols by (simp add: lb)
qed

lemma group_stats:
  assumes vc: "valid_choice ch" and R1: "1 \<le> R"
    and loop: "resample_loop ch (map target dfr) rep (nat R) [map level dfr] g = (fr, g')"
    and hx: "func (group_values dfr lvl) = Inr a"
    and tot: "total_statistic func"
  shows "\<exists>s. apply_cols func (length (rows_with_label fr lvl ! 0))
               (loc_cols (rows_with_label fr lvl) 1 R) = Inr s
           \<and> map func (map (select_rows (hd fr) lvl) (tl fr)) = map Inr s
           \<and> length s = nat R"
proof -
  obtain bs where fr: "fr = [map level dfr] @ map (map Num) bs" and lb: "length bs = nat R"
    and draws: "\<forall>b\<in>set bs. length b = length (map target dfr)
                  \<and> (\<not> rep \<longrightarrow> mset b = mset (map target dfr))"
    using resample_loop_draws[OF vc, of "map target dfr" rep "nat R" "[map level dfr]" g] loop
    by auto
  let ?labels = "map level dfr"
  let ?m = "length (filter (\<lambda>r. level r = lvl) dfr)"
  let ?cols = "map (select_rows ?labels lvl) (map (map Num) bs)"
  have f0: "fr ! 0 = ?labels" and h0: "hd fr = ?labels" and t0: "tl fr = map (map Num) bs"
    by (simp_all add: fr)
  have rows: "rows_with_label fr lvl = select_rows ?labels lvl ?labels # ?cols"
    unfolding rows_with_label_select f0 by (simp add: fr)
  have n: "length (rows_with_label fr lvl ! 0) = ?m"
    unfolding rows by (simp add: select_rows_labels o_def)
  have cols: "loc_cols (rows_with_label fr lvl) 1 R = ?cols"
    unfolding rows by (rule loc_cols_tail[OF R1]) (simp add: lb)
  have shape: "\<forall>c\<in>set ?cols. \<exists>zs. c = map Num zs \<and> length zs = ?m"
  proof
    fix c assume "c \<in> set ?cols"
    then obtain b where b: "b \<in> set bs" and c: "c = select_rows ?labels lvl (map Num b)"
      by auto
    have "length b = length ?labels" using draws b by simp
    from select_rows_Num[OF this, of lvl] show "\<exists>zs. c = map Num zs \<and> length zs = ?m"
      unfolding c by (simp add: o_def)
  qed
  have ret: "\<forall>c\<in>set ?cols. \<exists>v. func c = Inr v"
  proof
    fix c assume "c \<in> set ?cols"
    then obtain zs where zs: "c = map Num zs" "length zs = ?m" using shape by blast
    show "\<exists>v. func c = Inr v"
    proof (cases "zs = []")
      case True
      then have "group_values dfr lvl = []" using zs(2) group_values_empty[of lvl dfr] by simp
      then show ?thesis using hx zs(1) True by simp
    next
      case False
      then show ?thesis using tot zs(1) unfolding total_statistic_def by blast
    qed
  qed
  have empty: "?m = 0 \<longrightarrow> (\<forall>c\<in>set ?cols. c = [])"
    using shape by fastforce
  obtain s where s: "apply_cols func ?m ?cols = Inr s" "map func ?cols = map Inr s"
    using apply_cols_returns[OF ret empty] by blast
  have "length s = nat R" using s(2) lb by (metis length_map)
  then show ?thesis using s unfolding n cols h0 t0 by blast
qed

lemma resampled_statistic_returns:
  assumes "1 \<le> R"
    and "apply_cols func (length (rows_with_label fr lvl1 ! 0))
           (loc_cols (rows_with_label fr lvl1) 1 R) = Inr s1"
    and "apply_cols func (length (rows_with_label fr lvl2 ! 0))
           (loc_cols (rows_with_label fr lvl2) 1 R) = Inr s2"
  shows "resampled_statistic lvl1 lvl2 R func obs (fr, g') =
           Inr ((fr, map2 fsub s1 s2,
                 real (length (filter (\<lambda>d. fle obs d) (map2 fsub s1 s2))) / real_of_int R), g')"
  using assms by (simp add: resampled_statistic_def Let_def fle_fsub)

text \<open>
  A run on which the statistic of both groups is defined: the frame is the one the loop
  builds, the differences are those of the statistics of the two parts of each resampled
  column, and the p-value counts the differences that are at least the observed one.
\<close>

lemma run_hypothesis_returns:
  assumes vc: "valid_choice ch"
    and m: "method self = ''bootstrap'' \<or> method self = ''permutation''"
    and R1: "1 \<le> R"
    and hx: "func (group_values df lvl1) = Inr a"
    and hy: "func (group_values df lvl2) = Inr b"
    and tot: "total_statistic func"
  shows "\<exists>resampled g' s1 s2.
           resample_loop ch (map target (restricted df lvl1 lvl2)) (method self = ''bootstrap'')
               (nat R) [map level (restricted df lvl1 lvl2)] g = (resampled, g')
           \<and> map func (map (select_rows (hd resampled) lvl1) (tl resampled)) = map Inr s1
           \<and> map func (map (select_rows (hd resampled) lvl2) (tl resampled)) = map Inr s2
           \<and> length s1 = nat R \<and> length s2 = nat R
           \<and> run_hypothesis self ch g df lvl1 lvl2 R func =
               Inr ((resampled, map2 fsub s1 s2,
                     real (length (filter (\<lambda>d. fle (fsub a b) d) (map2 fsub s1 s2)))
                       / real_of_int R), g')"
proof -
  let ?dfr = "restricted df lvl1 lvl2"
  obtain fr g' where loop:
    "resample_loop ch (map target ?dfr) (method self = ''bootstrap'') (nat R) [map level ?dfr] g
       = (fr, g')"
    by (cases "resample_loop ch (map target ?dfr) (method self = ''bootstrap'') (nat R)
                 [map level ?dfr] g")
  have hx': "func (group_values ?dfr lvl1) = Inr a"
    using hx by (simp add: group_values_restricted_left)
  have hy': "func (group_values ?dfr lvl2) = Inr b"
    using hy by (simp add: group_values_restricted_right)
  obtain s1 where s1: "apply_cols func (length (rows_with_label fr lvl1 ! 0))
               (loc_cols (rows_with_label fr lvl1) 1 R) = Inr s1"
      "map func (map (select_rows (hd fr) lvl1) (tl fr)) = map Inr s1" "length s1 = nat R"
    using group_stats[OF vc R1 loop hx' tot] by blast
  obtain s2 where s2: "apply_cols func (length (rows_with_label fr lvl2 ! 0))
               (loc_cols (rows_with_label fr lvl2) 1 R) = Inr s2"
      "map func (map (select_rows (hd fr) lvl2) (tl fr)) = map Inr s2" "length s2 = nat R"
    using group_stats[OF vc R1 loop hy' tot] by blast
  have "run_hypothesis self ch g df lvl1 lvl2 R func =
               Inr ((fr, map2 fsub s1 s2,
                     real (length (filter (\<lambda>d. fle (fsub a b) d) (map2 fsub s1 s2)))
                       / real_of_int R), g')"
    unfolding run_hypothesis_unfold[OF hx hy m] loop
    by (rule resampled_statistic_returns[OF R1 s1(1) s2(1)])
  then show ?thesis using loop s1(2,3) s2(2,3) by blast
qed

lemma group_values_total:
  assumes "total_statistic func" and "lvl \<in> level ` set df"
  shows "\<exists>a. func (group_values df lvl) = Inr a"
proof -
  obtain r where "r \<in> set df" "level r = lvl" using assms(2) by auto
  then have "filter (\<lambda>r. level r = lvl) df \<noteq> []" by (auto simp: filter_empty_conv)
  then have "map target (filter (\<lambda>r. level r = lvl) df) \<noteq> []" by simp
  then show ?thesis using assms(1) unfolding total_statistic_def group_values_def by blast
qed

lemma group_values_absent:
  assumes "lvl \<notin> level ` set df"
  shows "group_values df lvl = []"
proof -
  have "filter (\<lambda>r. level r = lvl) df = []" using assms by (auto simp: filter_empty_conv)
  then show ?thesis by (simp add: group_values_def)
qed

lemma run_hypothesis_cases:
  "run_hypothesis self ch g df lvl1 lvl2 R func =
     (case func (group_values df lvl1) of
        Inl e \<Rightarrow> Inl e
      | Inr a \<Rightarrow>
          (case func (group_values df lvl2) of
             Inl e \<Rightarrow> Inl e
           | Inr b \<Rightarrow>
               if method self = ''bootstrap'' \<or> method self = ''permutation'' then
                 resampled_statistic lvl1 lvl2 R func (fsub a b)
                   (resample_loop ch (map target (restricted df lvl1 lvl2))
                      (method self = ''bootstrap'') (nat R) [map level (restricted df lvl1 lvl2)] g)
               else Inl (SystemExit
                      ''Please set resampling method as 'bootstrap' or 'permutation' '')))"
proof -
  have x: "map Num (map target (filter (\<lambda>r. level r = lvl1)
             (filter (\<lambda>r. level r = lvl1 \<or> level r = lvl2) df))) = group_values df lvl1"
    using group_values_restricted_left[of df lvl1 lvl2]
    by (simp add: group_values_def restricted_def)
  have y: "map Num (map target (filter (\<lambda>r. level r = lvl2)
             (filter (\<lambda>r. level r = lvl1 \<or> level r = lvl2) df))) = group_values df lvl2"
    using group_values_restricted_right[of df lvl1 lvl2]
    by (simp add: group_values_def restricted_def)
  show ?thesis
    unfolding run_hypothesis_def Let_def x y restricted_def
    by (auto split: sum.splits)
qed

lemma resampled_statistic_inversion:
  assumes "resampled_statistic lvl1 lvl2 R func obs (fr, g') = Inr ((fr', diff, p), g'')"
  shows "1 \<le> R \<and> fr' = fr \<and> g'' = g'
       \<and> (\<exists>s1 s2.
             apply_cols func (length (rows_with_label fr lvl1 ! 0))
               (loc_cols (rows_with_label fr lvl1) 1 R) = Inr s1
           \<and> apply_cols func (length (rows_with_label fr lvl2 ! 0))
               (loc_cols (rows_with_label fr lvl2) 1 R) = Inr s2
           \<and> diff = map2 fsub s1 s2
           \<and> p = real (length (filter (\<lambda>d. fle obs d) diff)) / real_of_int R)"
  using assms
  by (auto simp: resampled_statistic_def Let_def fle_fsub split: if_splits sum.splits)

text \<open>Whatever the random source, a run that returns has \<open>R\<close> differences.\<close>

lemma resampled_statistic_length:
  assumes run: "resampled_statistic lvl1 lvl2 R func obs
                  (resample_loop ch (map target dfr) rep (nat R) [map level dfr] g)
                  = Inr ((fr, diff, p), g')"
    and hx: "func (group_values dfr lvl1) = Inr a"
    and hy: "func (group_values dfr lvl2) = Inr b"
  shows "1 \<le> R \<and> length diff = nat R
       \<and> resample_loop ch (map target dfr) rep (nat R) [map level dfr] g = (fr, g')"
proof -
  obtain fr0 g0 where loop:
    "resample_loop ch (map target dfr) rep (nat R) [map level dfr] g = (fr0, g0)"
    by (cases "resample_loop ch (map target dfr) rep (nat R) [map level dfr] g")
  from resampled_statistic_inversion[OF run[unfolded loop]]
  obtain s1 s2 where R1: "1 \<le> R" and eq: "fr = fr0" "g' = g0"
    and s1: "apply_cols func (length (rows_with_label fr0 lvl1 ! 0))
               (loc_cols (rows_with_label fr0 lvl1) 1 R) = Inr s1"
    and s2: "apply_cols func (length (rows_with_label fr0 lvl2 ! 0))
               (loc_cols (rows_with_label fr0 lvl2) 1 R) = Inr s2"
    and d: "diff = map2 fsub s1 s2"
    by blast
  have "length s1 = nat R" by (rule group_stats_length[OF R1 loop hx s1])
  moreover have "length s2 = nat R" by (rule group_stats_length[OF R1 loop hy s2])
  ultimately show ?thesis using R1 d loop eq by simp
qed

lemma run_hypothesis_inversion:
  assumes "run_hypothesis self ch g df lvl1 lvl2 R func = Inr ((fr, diff, p), g')"
  shows "1 \<le> R \<and> length diff = nat R
       \<and> (method self = ''bootstrap'' \<or> method self = ''permutation'')
       \<and> resample_loop ch (map target (restricted df lvl1 lvl2)) (method self = ''bootstrap'')
            (nat R) [map level (restricted df lvl1 lvl2)] g = (fr, g')"
proof -
  obtain a where a: "func (group_values df lvl1) = Inr a"
    using assms unfolding run_hypothesis_cases by (cases "func (group_values df lvl1)") auto
  obtain b where b: "func (group_values df lvl2) = Inr b"
    using assms a unfolding run_hypothesis_cases by (cases "func (group_values df lvl2)") auto
  have m: "method self = ''bootstrap'' \<or> method self = ''permutation''"
    using assms a b unfolding run_hypothesis_cases by (auto split: if_splits)
  have run: "resampled_statistic lvl1 lvl2 R func (fsub a b)
               (resample_loop ch (map target (restricted df lvl1 lvl2))
                  (method self = ''bootstrap'') (nat R) [map level (restricted df lvl1 lvl2)] g)
             = Inr ((fr, diff, p), g')"
    using assms a b m unfolding run_hypothesis_cases by simp
  have a': "func (group_values (restricted df lvl1 lvl2) lvl1) = Inr a"
    using a by (simp add: group_values_restricted_left)
  have b': "func (group_values (restricted df lvl1 lvl2) lvl2) = Inr b"
    using b by (simp add: group_values_restricted_right)
  show ?thesis using resampled_statistic_length[OF run a' b'] m by blast
qed

lemma run_hypothesis_no_result:
  assumes "R < 1"
  shows "\<exists>e. run_hypothesis self ch g df lvl1 lvl2 R func = Inl e"
proof (cases "run_hypothesis self ch g df lvl1 lvl2 R func")
  case (Inl e)
  then show ?thesis by blast
next
  case (Inr res)
  obtain fr diff p g' where "res = ((fr, diff, p), g')" by (metis prod.collapse)
  then have "1 \<le> R" using run_hypothesis_inversion[of self ch g df lvl1 lvl2 R func fr diff p g'] Inr
    by simp
  then show ?thesis using assms by simp
qed

lemma run_hypothesis_KeyError:
  assumes "R < 1" and "method self = ''bootstrap'' \<or> method self = ''permutation''"
    and "func (group_values df lvl1) = Inr a" and "func (group_values df lvl2) = Inr b"
  shows "run_hypothesis self ch g df lvl1 lvl2 R func = Inl KeyError"
  using assms unfolding run_hypothesis_cases
  by (simp add: resampled_statistic_def split: prod.splits)

lemma select_rows_absent:
  "lvl \<notin> set labels \<Longrightarrow> select_rows labels lvl c = []"
proof (induction labels arbitrary: c)
  case Nil
  show ?case by (simp add: select_rows_def)
next
  case (Cons l ls)
  then have ih: "\<And>c. select_rows ls lvl c = []" by simp
  show ?case
  proof (cases c)
    case Nil
    then show ?thesis by (simp add: select_rows_def)
  next
    case (Cons x xs)
    then show ?thesis using ih[of xs] Cons.prems by (auto simp: select_rows_def)
  qed
qed

lemma map2_fsub_replicate_right:
  "length s = n \<Longrightarrow> map2 fsub s (replicate n v) = map (\<lambda>a. fsub a v) s"
  by (induction s arbitrary: n) auto

lemma map2_fsub_replicate_left:
  "length s = n \<Longrightarrow> map2 fsub (replicate n v) s = map (\<lambda>a. fsub v a) s"
  by (induction s arbitrary: n) auto

lemma absent_stats:
  fixes func :: statistic
  assumes "lvl \<notin> set labels" and "func [] = Inr v"
    and "map func (map (select_rows labels lvl) cols) = map Inr s"
  shows "s = replicate (length cols) v"
proof -
  have "map func (map (select_rows labels lvl) cols) = map (\<lambda>_. Inr v) cols"
    using assms(1,2) by (simp add: select_rows_absent)
  also have "\<dots> = map Inr (replicate (length cols) v)" by (simp add: map_replicate_const)
  finally have e: "map func (map (select_rows labels lvl) cols)
                    = map Inr (replicate (length cols) v)" .
  have "(map Inr s :: (error + fnum) list) = map Inr (replicate (length cols) v)"
    using assms(3) e by (rule trans[OF sym])
  then show ?thesis by (simp only: inj_map_eq_map[OF inj_Inr])
qed

lemma absent_raises:
  assumes ab: "lvl \<notin> level ` set df" and tot: "total_statistic func"
    and e: "func [] = Inl e"
  shows "run_hypothesis self ch g df lvl1 lvl R func = Inl e
       \<and> run_hypothesis self ch g df lvl lvl2 R func = Inl e"
proof
  have y: "func (group_values df lvl) = Inl e" using e group_values_absent[OF ab] by simp
  show "run_hypothesis self ch g df lvl1 lvl R func = Inl e"
  proof (cases "lvl1 \<in> level ` set df")
    case True
    then obtain a where "func (group_values df lvl1) = Inr a"
      using group_values_total[OF tot] by blast
    then show ?thesis using y by (simp add: run_hypothesis_cases)
  next
    case False
    then have "func (group_values df lvl1) = Inl e" using e group_values_absent by simp
    then show ?thesis by (simp add: run_hypothesis_cases)
  qed
  show "run_hypothesis self ch g df lvl lvl2 R func = Inl e"
    using y by (simp add: run_hypothesis_cases)
qed

lemma restricted_labels:
  "set (map level (restricted df lvl1 lvl2)) \<subseteq> level ` set df"
  by (auto simp: restricted_def)

lemma absent_second:
  assumes vc: "valid_choice ch" and ab: "lvl \<notin> level ` set df"
    and m: "method self = ''bootstrap'' \<or> method self = ''permutation''"
    and R1: "1 \<le> R" and tot: "total_statistic func" and v: "func [] = Inr v"
  shows "\<exists>resampled g' a s1.
           resample_loop ch (map target (restricted df lvl1 lvl)) (method self = ''bootstrap'')
               (nat R) [map level (restricted df lvl1 lvl)] g = (resampled, g')
           \<and> func (group_values df lvl1) = Inr a
           \<and> map func (map (select_rows (hd resampled) lvl1) (tl resampled)) = map Inr s1
           \<and> int (length s1) = R
           \<and> run_hypothesis self ch g df lvl1 lvl R func =
               Inr ((resampled, map (\<lambda>s. fsub s v) s1,
                     real (length (filter (\<lambda>d. fle (fsub a v) d) (map (\<lambda>s. fsub s v) s1)))
                       / real_of_int R), g')"
proof -
  let ?dfr = "restricted df lvl1 lvl"
  have y: "func (group_values df lvl) = Inr v" using v group_values_absent[OF ab] by simp
  obtain a where a: "func (group_values df lvl1) = Inr a"
  proof (cases "lvl1 \<in> level ` set df")
    case True
    then show ?thesis using group_values_total[OF tot] that by blast
  next
    case False
    then show ?thesis using v group_values_absent that by simp
  qed
  obtain fr g' s1 s2 where
    loop: "resample_loop ch (map target ?dfr) (method self = ''bootstrap'') (nat R)
             [map level ?dfr] g = (fr, g')"
    and s1: "map func (map (select_rows (hd fr) lvl1) (tl fr)) = map Inr s1"
    and s2: "map func (map (select_rows (hd fr) lvl) (tl fr)) = map Inr s2"
    and l1: "length s1 = nat R" and l2: "length s2 = nat R"
    and run: "run_hypothesis self ch g df lvl1 lvl R func =
               Inr ((fr, map2 fsub s1 s2,
                     real (length (filter (\<lambda>d. fle (fsub a v) d) (map2 fsub s1 s2)))
                       / real_of_int R), g')"
    using run_hypothesis_returns[OF vc m R1 a y tot, of g] by blast
  obtain bs where fr: "fr = [map level ?dfr] @ map (map Num) bs"
    using resample_loop_prefix[of ch "map target ?dfr" "method self = ''bootstrap''" "nat R"
        "[map level ?dfr]" g] loop by auto
  have hd: "hd fr = map level ?dfr" by (simp add: fr)
  have "lvl \<notin> set (hd fr)" unfolding hd using ab restricted_labels[of df lvl1 lvl] by blast
  from absent_stats[OF this v s2] have "s2 = replicate (length (tl fr)) v" .
  then have "s2 = replicate (nat R) v" using l2 by (metis length_replicate)
  then have "map2 fsub s1 s2 = map (\<lambda>s. fsub s v) s1"
    using map2_fsub_replicate_right[OF l1, of v] by simp
  then show ?thesis using loop a s1 l1 run R1 by fastforce
qed

lemma absent_first:
  assumes vc: "valid_choice ch" and ab: "lvl \<notin> level ` set df"
    and m: "method self = ''bootstrap'' \<or> method self = ''permutation''"
    and R1: "1 \<le> R" and tot: "total_statistic func" and v: "func [] = Inr v"
  shows "\<exists>resampled g' b s2.
           resample_loop ch (map target (restricted df lvl lvl2)) (method self = ''bootstrap'')
               (nat R) [map level (restricted df lvl lvl2)] g = (resampled, g')
           \<and> func (group_values df lvl2) = Inr b
           \<and> map func (map (select_rows (hd resampled) lvl2) (tl resampled)) = map Inr s2
           \<and> int (length s2) = R
           \<and> run_hypothesis self ch g df lvl lvl2 R func =
               Inr ((resampled, map (\<lambda>s. fsub v s) s2,
                     real (length (filter (\<lambda>d. fle (fsub v b) d) (map (\<lambda>s. fsub v s) s2)))
                       / real_of_int R), g')"
proof -
  let ?dfr = "restricted df lvl lvl2"
  have x: "func (group_values df lvl) = Inr v" using v group_values_absent[OF ab] by simp
  obtain b where b: "func (group_values df lvl2) = Inr b"
  proof (cases "lvl2 \<in> level ` set df")
    case True
    then show ?thesis using group_values_total[OF tot] that by blast
  next
    case False
    then show ?thesis using v group_values_absent that by simp
  qed
  obtain fr g' s1 s2 where
    loop: "resample_loop ch (map target ?dfr) (method self = ''bootstrap'') (nat R)
             [map level ?dfr] g = (fr, g')"
    and s1: "map func (map (select_rows (hd fr) lvl) (tl fr)) = map Inr s1"
    and s2: "map func (map (select_rows (hd fr) lvl2) (tl fr)) = map Inr s2"
    and l1: "length s1 = nat R" and l2: "length s2 = nat R"
    and run: "run_hypothesis self ch g df lvl lvl2 R func =
               Inr ((fr, map2 fsub s1 s2,
                     real (length (filter (\<lambda>d. fle (fsub v b) d) (map2 fsub s1 s2)))
                       / real_of_int R), g')"
    using run_hypothesis_returns[OF vc m R1 x b tot, of g] by blast
  obtain bs where fr: "fr = [map level ?dfr] @ map (map Num) bs"
    using resample_loop_prefix[of ch "map target ?dfr" "method self = ''bootstrap''" "nat R"
        "[map level ?dfr]" g] loop by auto
  have hd: "hd fr = map level ?dfr" by (simp add: fr)
  have "lvl \<notin> set (hd fr)" unfolding hd using ab restricted_labels[of df lvl lvl2] by blast
  from absent_stats[OF this v s1] have "s1 = replicate (length (tl fr)) v" .
  then have "s1 = replicate (nat R) v" using l1 by (metis length_replicate)
  then have "map2 fsub s1 s2 = map (\<lambda>s. fsub v s) s2"
    using map2_fsub_replicate_left[OF l2, of v] by simp
  then show ?thesis using loop b s2 l2 run R1 by fastforce
qed

section \<open>Lemmas on the percentile\<close>

lemma min_next_less: "0 < (n::nat) \<Longrightarrow> min (k + 1) (n - 1) < n"
  by arith

lemma nat_floor_le:
  assumes "s \<noteq> []" "0 \<le> t" "t \<le> real (length s) - 1"
  shows "nat \<lfloor>t\<rfloor> \<le> length s - 1"
proof -
  have "real (nat \<lfloor>t\<rfloor>) \<le> t" using assms(2) by simp
  moreover have "1 \<le> length s" using assms(1) by (simp add: Suc_leI)
  ultimately have "real (nat \<lfloor>t\<rfloor>) \<le> real (length s - 1)" using assms(3)
    by (simp add: of_nat_diff)
  then show ?thesis by simp
qed

lemma nat_floor_less:
  assumes "s \<noteq> []" "0 \<le> t" "t \<le> real (length s) - 1"
  shows "nat \<lfloor>t\<rfloor> < length s"
proof -
  have "0 < length s" using assms(1) by simp
  then show ?thesis using nat_floor_le[OF assms] by arith
qed






text \<open>The percentile of values without NaN, as a position in the sorted values.\<close>

lemma percentile_Fin:
  assumes "a \<noteq> []" "NaN \<notin> set a" "0 \<le> q" "q \<le> 100"
  shows "percentile a q = Inr (Fin (lerp_at (sort (map fin a)) ((real (length a) - 1) * (q / 100))))"
  using assms by (simp add: percentile_def)

lemma percentile_position:
  assumes "a \<noteq> []" "0 \<le> q" "q \<le> 100"
  shows "0 \<le> (real (length a) - 1) * (q / 100)
       \<and> (real (length a) - 1) * (q / 100) \<le> real (length (sort (map fin a))) - 1"
proof -
  have n1: "0 \<le> real (length a) - 1" using assms(1) by (simp add: Suc_leI)
  have "(real (length a) - 1) * (q / 100) \<le> (real (length a) - 1) * 1"
    using n1 assms(3) by (intro mult_left_mono) auto
  then show ?thesis using n1 assms(2) by simp
qed

lemma percentile_returns:
  "a \<noteq> [] \<Longrightarrow> 0 \<le> q \<Longrightarrow> q \<le> 100 \<Longrightarrow> \<exists>v. percentile a q = Inr v"
  by (simp add: percentile_def)

lemma percentile_replicate:
  assumes "0 < n" "0 \<le> q" "q \<le> 100"
  shows "percentile (replicate n v) q = Inr v"
proof (cases v)
  case NaN
  then show ?thesis using assms by (simp add: percentile_def)
next
  case (Fin c)
  let ?a = "replicate n (Fin c)"
  let ?s = "sort (map fin ?a)" and ?t = "(real (length ?a) - 1) * (q / 100)"
  have ne: "?a \<noteq> []" using assms(1) by simp
  have sne: "?s \<noteq> []" using assms(1) by simp
  have nn: "NaN \<notin> set ?a" by simp
  have all: "\<And>i. i < length ?s \<Longrightarrow> ?s ! i = c"
  proof -
    fix i assume "i < length ?s"
    then have "?s ! i \<in> set ?s" by (rule nth_mem)
    then show "?s ! i = c" by simp
  qed
  have pos: "0 \<le> ?t \<and> ?t \<le> real (length ?s) - 1"
    by (rule percentile_position[OF ne assms(2,3)])
  have k: "nat \<lfloor>?t\<rfloor> < length ?s" using nat_floor_less[OF sne] pos by blast
  have "0 < length ?s" using assms(1) by simp
  then have h: "min (nat \<lfloor>?t\<rfloor> + 1) (length ?s - 1) < length ?s" by (rule min_next_less)
  have "lerp_at ?s ?t = c"
    unfolding lerp_at_def Let_def using all[OF k] all[OF h] by simp
  then show ?thesis using percentile_Fin[OF ne nn assms(2,3)] Fin by simp
qed

lemma valid_replay_choice: "valid_choice replay_choice"
  unfolding valid_choice_def
proof (intro allI)
  fix g :: "nat list list" and n :: nat
  have id_all: "list_all (\<lambda>i. i < n) [0..<n]" by (simp add: list_all_iff)
  show "length (fst (replay_choice g n True)) = n
        \<and> list_all (\<lambda>i. i < n) (fst (replay_choice g n True))
        \<and> mset (fst (replay_choice g n False)) = mset [0..<n]"
  proof (cases g)
    case Nil
    then show ?thesis using id_all by simp
  next
    case (Cons t ts)
    have perm: "sort t = [0..<n] \<Longrightarrow> mset t = mset [0..<n]"
      by (metis mset_sort)
    show ?thesis using Cons id_all perm by simp
  qed
qed

lemma kept_rows: "map snd (filter (\<lambda>ir. P (snd ir)) (zip [0..<length df] df)) = filter P df"
proof -
  have "filter P df = filter P (map snd (zip [0..<length df] df))"
    by (simp add: map_snd_zip)
  also have "\<dots> = map snd (filter (P \<circ> snd) (zip [0..<length df] df))"
    by (rule filter_map)
  finally show ?thesis by (simp add: o_def)
qed

lemma kept_absent:
  assumes "lvl \<notin> level ` set df"
  shows "filter (\<lambda>ir. level (snd ir) = lvl) (zip [0..<length df] df) = []"
proof -
  have "\<forall>ir\<in>set (zip [0..<length df] df). level (snd ir) \<noteq> lvl"
  proof
    fix ir assume "ir \<in> set (zip [0..<length df] df)"
    then have "snd ir \<in> set df" by (metis set_zip_rightD prod.collapse)
    then show "level (snd ir) \<noteq> lvl" using assms by auto
  qed
  then show ?thesis by (simp add: filter_empty_conv)
qed

section \<open>Lemmas on the confidence interval\<close>

text \<open>What a returning call of \<^verbatim>\<open>estimate_ci\<close> went through.\<close>

lemma estimate_ci_inversion:
  assumes "estimate_ci self ch g df lvl R func alpha_level = Inr ((distr, upper, lower), g')"
  shows "method self = ''bootstrap'' \<and> 1 \<le> R \<and> distr \<noteq> []
       \<and> percentile distr (100 - 0.5 * 100 * alpha_level) = Inr upper
       \<and> percentile distr (0.5 * 100 * alpha_level) = Inr lower
       \<and> (\<exists>fr.
            resample_loop ch
               (map target (map snd (filter (\<lambda>ir. level (snd ir) = lvl) (zip [0..<length df] df))))
               True (nat R)
               [map (\<lambda>ir. Num (real (fst ir)))
                  (filter (\<lambda>ir. level (snd ir) = lvl) (zip [0..<length df] df)),
                map level (map snd (filter (\<lambda>ir. level (snd ir) = lvl) (zip [0..<length df] df)))]
               g = (fr, g')
          \<and> apply_cols func (length (fr ! 0)) (loc_cols fr 1 R) = Inr distr)"
proof -
  let ?kept = "filter (\<lambda>ir. level (snd ir) = lvl) (zip [0..<length df] df)"
  let ?fr0 = "[map (\<lambda>ir. Num (real (fst ir))) ?kept, map level (map snd ?kept)]"
  obtain fr g0 where loop:
    "resample_loop ch (map target (map snd ?kept)) True (nat R) ?fr0 g = (fr, g0)"
    by (cases "resample_loop ch (map target (map snd ?kept)) True (nat R) ?fr0 g")
  have form: "estimate_ci self ch g df lvl R func alpha_level =
      (if method self = ''bootstrap'' then
         if R < 1 then Inl TypeError
         else (case apply_cols func (length (fr ! 0)) (loc_cols fr 1 R) of
                 Inl e \<Rightarrow> Inl e
               | Inr d \<Rightarrow>
                   (case percentile d (100 - 0.5 * 100 * alpha_level) of
                      Inl e \<Rightarrow> Inl e
                    | Inr u \<Rightarrow>
                        (case percentile d (0.5 * 100 * alpha_level) of
                           Inl e \<Rightarrow> Inl e
                         | Inr l \<Rightarrow> Inr ((d, (u, l)), g0))))
       else Inl (SystemExit ''confidence interval can be estimated only for bootstrap method''))"
    using loop by (simp add: estimate_ci_def Let_def)
  have run: "(if method self = ''bootstrap'' then
         if R < 1 then Inl TypeError
         else (case apply_cols func (length (fr ! 0)) (loc_cols fr 1 R) of
                 Inl e \<Rightarrow> Inl e
               | Inr d \<Rightarrow>
                   (case percentile d (100 - 0.5 * 100 * alpha_level) of
                      Inl e \<Rightarrow> Inl e
                    | Inr u \<Rightarrow>
                        (case percentile d (0.5 * 100 * alpha_level) of
                           Inl e \<Rightarrow> Inl e
                         | Inr l \<Rightarrow> Inr ((d, (u, l)), g0))))
       else Inl (SystemExit ''confidence interval can be estimated only for bootstrap method''))
      = Inr ((distr, upper, lower), g')"
    using assms unfolding form .
  have m: "method self = ''bootstrap''" and R1: "1 \<le> R"
    using run by (auto split: if_splits)
  obtain d where d: "apply_cols func (length (fr ! 0)) (loc_cols fr 1 R) = Inr d"
    using run m R1 by (cases "apply_cols func (length (fr ! 0)) (loc_cols fr 1 R)") auto
  obtain u where u: "percentile d (100 - 0.5 * 100 * alpha_level) = Inr u"
    using run m R1 d by (cases "percentile d (100 - 0.5 * 100 * alpha_level)") auto
  obtain l where l: "percentile d (0.5 * 100 * alpha_level) = Inr l"
    using run m R1 d u by (cases "percentile d (0.5 * 100 * alpha_level)") auto
  have eq: "distr = d \<and> upper = u \<and> lower = l \<and> g' = g0"
    using run m R1 d u l by simp
  have ne: "d \<noteq> []" using u by (auto simp: percentile_def split: if_splits)
  show ?thesis using m R1 ne u l d loop eq by blast
qed


text \<open>
  The frame of \<^verbatim>\<open>estimate_ci\<close> starts with two columns, so the columns
  \<open>1, ..., R\<close> it takes the statistics of begin with the grouping column: the first
  entry of a returned distribution is the statistic of the labels, and the last
  resample is left out.
\<close>

lemma estimate_ci_first_entry:
  assumes "estimate_ci self ch g df lvl R func alpha_level = Inr ((distr, upper, lower), g')"
  shows "func (map level (filter (\<lambda>r. level r = lvl) df)) = Inr (hd distr)"
proof -
  let ?kept = "filter (\<lambda>ir. level (snd ir) = lvl) (zip [0..<length df] df)"
  let ?labels = "map level (map snd ?kept)"
  let ?fr0 = "[map (\<lambda>ir. Num (real (fst ir))) ?kept, ?labels]"
  obtain fr where R1: "1 \<le> R" and ne: "distr \<noteq> []"
    and loop: "resample_loop ch (map target (map snd ?kept)) True (nat R) ?fr0 g = (fr, g')"
    and ap: "apply_cols func (length (fr ! 0)) (loc_cols fr 1 R) = Inr distr"
    using estimate_ci_inversion[OF assms] by blast
  obtain bs where fr: "fr = ?fr0 @ map (map Num) bs" and lb: "length bs = nat R"
    using resample_loop_prefix[of ch "map target (map snd ?kept)" True "nat R" ?fr0 g] loop
    by auto
  obtain k where k: "nat R = Suc k" using R1 by (cases "nat R") auto
  have cols: "loc_cols fr 1 R = ?labels # take k (map (map Num) bs)"
    using k R1 by (simp add: fr loc_cols_def)
  have n: "length (fr ! 0) = length ?kept" by (simp add: fr)
  have lab: "?labels = map level (filter (\<lambda>r. level r = lvl) df)"
    using kept_rows[of "\<lambda>r. level r = lvl" df] by simp
  have "func ?labels = Inr (hd distr)"
  proof (cases "length ?kept = 0")
    case True
    then have e: "?labels = []" by simp
    show ?thesis
      using ap ne True unfolding n cols e
      by (cases "func []") (auto simp: apply_cols_def)
  next
    case False
    then have "apply_each func (?labels # take k (map (map Num) bs)) = Inr distr"
      using ap unfolding n cols by (simp add: apply_cols_def)
    then show ?thesis by (auto split: sum.splits)
  qed
  then show ?thesis unfolding lab .
qed

lemma estimate_ci_absent:
  assumes "lvl \<notin> level ` set df" "1 \<le> R" "0 < alpha_level" "alpha_level < 1"
    and "func [] = Inr v"
  shows "\<exists>g'. estimate_ci \<lparr>method = ''bootstrap''\<rparr> ch g df lvl R func alpha_level =
           Inr ((replicate (nat R) v, v, v), g')"
proof -
  obtain fr g' where loop: "resample_loop ch [] True (nat R) [[], []] g = (fr, g')"
    by (cases "resample_loop ch [] True (nat R) [[], []] g")
  obtain bs where fr: "fr = [[], []] @ map (map Num) bs" and lb: "length bs = nat R"
    using resample_loop_prefix[of ch "[]" True "nat R" "[[], []]" g] loop by auto
  have n: "length (fr ! 0) = 0" by (simp add: fr)
  have lc: "length (loc_cols fr 1 R) = nat R" using assms(2) lb by (simp add: fr loc_cols_def)
  have ap: "apply_cols func (length (fr ! 0)) (loc_cols fr 1 R) = Inr (replicate (nat R) v)"
    unfolding n using assms(5) lc by (simp add: apply_cols_def)
  have pos: "0 < nat R" using assms(2) by simp
  have up: "percentile (replicate (nat R) v) (100 - 0.5 * 100 * alpha_level) = Inr v"
    using percentile_replicate[OF pos, of "100 - 0.5 * 100 * alpha_level" v] assms(3,4) by auto
  have lo: "percentile (replicate (nat R) v) (0.5 * 100 * alpha_level) = Inr v"
    using percentile_replicate[OF pos, of "0.5 * 100 * alpha_level" v] assms(3,4) by auto
  show ?thesis
    using assms(2) loop ap up lo
    by (simp add: estimate_ci_def Let_def kept_absent[OF assms(1)])
qed

lemma marker_height_ok: "d \<noteq> [] \<Longrightarrow> \<exists>yp. marker_height d = Inr yp"
  by (simp add: marker_height_def percentile_def)

lemma numbers_Num: "numbers (map Num xs) = Some xs"
  by (induction xs) auto

lemma total_np_mean: "total_statistic np_mean"
  by (simp add: total_statistic_def np_mean_def numbers_Num)

lemma total_np_percentile: "0 \<le> q \<Longrightarrow> q \<le> 100 \<Longrightarrow> total_statistic (np_percentile q)"
  by (simp add: total_statistic_def np_percentile_def numbers_Num percentile_def)

section \<open>Lemmas on the legacy classes\<close>

lemma Bootstrap_cases:
  "Bootstrap_calculate_pvalue \<lparr>boot_lvl1 = lvl1, boot_lvl2 = lvl2\<rparr> ch g df B func =
     (case func (group_values df lvl1) of
        Inl e \<Rightarrow> Inl e
      | Inr a \<Rightarrow>
          (case func (group_values df lvl2) of
             Inl e \<Rightarrow> Inl e
           | Inr b \<Rightarrow>
               (case resampled_statistic lvl1 lvl2 B func (fsub a b)
                       (resample_loop ch (map target (restricted df lvl1 lvl2)) True (nat B)
                          [map level (restricted df lvl1 lvl2)] g) of
                  Inl e \<Rightarrow> Inl e
                | Inr res \<Rightarrow>
                    (case marker_height (fst (snd (fst res))) of
                       Inl e \<Rightarrow> Inl e
                     | Inr yp \<Rightarrow>
                         Inr (\<lparr>printed_obs = fsub a b, printed_pval = snd (snd (fst res)),
                               plotted_yp = yp, returned_diff = fst (snd (fst res))\<rparr>,
                              snd res)))))"
proof -
  have x: "map Num (map target (filter (\<lambda>r. level r = lvl1)
             (filter (\<lambda>r. level r = lvl1 \<or> level r = lvl2) df))) = group_values df lvl1"
    using group_values_restricted_left[of df lvl1 lvl2]
    by (simp add: group_values_def restricted_def)
  have y: "map Num (map target (filter (\<lambda>r. level r = lvl2)
             (filter (\<lambda>r. level r = lvl1 \<or> level r = lvl2) df))) = group_values df lvl2"
    using group_values_restricted_right[of df lvl1 lvl2]
    by (simp add: group_values_def restricted_def)
  show ?thesis
    unfolding Bootstrap_calculate_pvalue_def Let_def Bootstrap.simps x y restricted_def
      resampled_statistic_def
    by (auto split: sum.splits prod.splits)
qed

lemma permutation_cases:
  "permutation_calculate_pvalue \<lparr>perm_lvl1 = lvl1, perm_lvl2 = lvl2\<rparr> ch g df P func =
     (case func (group_values df lvl1) of
        Inl e \<Rightarrow> Inl e
      | Inr a \<Rightarrow>
          (case func (group_values df lvl2) of
             Inl e \<Rightarrow> Inl e
           | Inr b \<Rightarrow>
               (case resampled_statistic lvl1 lvl2 P func (fsub a b)
                       (resample_loop ch (map target (restricted df lvl1 lvl2)) False (nat P)
                          [map level (restricted df lvl1 lvl2)] g) of
                  Inl e \<Rightarrow> Inl e
                | Inr res \<Rightarrow>
                    (case marker_height (fst (snd (fst res))) of
                       Inl e \<Rightarrow> Inl e
                     | Inr yp \<Rightarrow>
                         Inr (\<lparr>printed_obs = fsub a b, printed_pval = snd (snd (fst res)),
                               plotted_yp = yp, returned_diff = fst (snd (fst res))\<rparr>,
                              snd res)))))"
proof -
  have x: "map Num (map target (filter (\<lambda>r. level r = lvl1)
             (filter (\<lambda>r. level r = lvl1 \<or> level r = lvl2) df))) = group_values df lvl1"
    using group_values_restricted_left[of df lvl1 lvl2]
    by (simp add: group_values_def restricted_def)
  have y: "map Num (map target (filter (\<lambda>r. level r = lvl2)
             (filter (\<lambda>r. level r = lvl1 \<or> level r = lvl2) df))) = group_values df lvl2"
    using group_values_restricted_right[of df lvl1 lvl2]
    by (simp add: group_values_def restricted_def)
  show ?thesis
    unfolding permutation_calculate_pvalue_def Let_def permutation.simps x y restricted_def
      resampled_statistic_def
    by (auto split: sum.splits prod.splits)
qed

lemma obs_diff_returns:
  "func (group_values df lvl1) = Inr a \<Longrightarrow> func (group_values df lvl2) = Inr b
   \<Longrightarrow> obs_diff func df lvl1 lvl2 = fsub a b"
  by (simp add: obs_diff_def)

lemma Bootstrap_refines:
  "map_sum id (\<lambda>(out, g'). (printed_obs out, returned_diff out, printed_pval out, g'))
       (Bootstrap_calculate_pvalue \<lparr>boot_lvl1 = lvl1, boot_lvl2 = lvl2\<rparr> ch g df R func)
   = map_sum id (\<lambda>((resampled, diff, pval), g'). (obs_diff func df lvl1 lvl2, diff, pval, g'))
       (run_hypothesis \<lparr>method = ''bootstrap''\<rparr> ch g df lvl1 lvl2 R func)"
proof (cases "func (group_values df lvl1)")
  case (Inl e)
  then show ?thesis by (simp add: Bootstrap_cases run_hypothesis_cases)
next
  case a: (Inr a)
  show ?thesis
  proof (cases "func (group_values df lvl2)")
    case (Inl e)
    then show ?thesis using a by (simp add: Bootstrap_cases run_hypothesis_cases)
  next
    case b: (Inr b)
    let ?dfr = "restricted df lvl1 lvl2"
    let ?run = "resampled_statistic lvl1 lvl2 R func (fsub a b)
                  (resample_loop ch (map target ?dfr) True (nat R) [map level ?dfr] g)"
    have a': "func (group_values ?dfr lvl1) = Inr a"
      using a by (simp add: group_values_restricted_left)
    have b': "func (group_values ?dfr lvl2) = Inr b"
      using b by (simp add: group_values_restricted_right)
    show ?thesis
    proof (cases ?run)
      case (Inl e)
      then show ?thesis using a b by (simp add: Bootstrap_cases run_hypothesis_cases)
    next
      case (Inr res)
      obtain fr diff p g' where res: "res = ((fr, diff, p), g')" by (metis prod.collapse)
      have "1 \<le> R \<and> length diff = nat R"
        using resampled_statistic_length[OF Inr[unfolded res] a' b'] by blast
      then have "diff \<noteq> []" by auto
      then obtain yp where "marker_height diff = Inr yp" using marker_height_ok by blast
      then show ?thesis using a b Inr res
        by (simp add: Bootstrap_cases run_hypothesis_cases obs_diff_returns[OF a b])
    qed
  qed
qed

lemma permutation_refines:
  "map_sum id (\<lambda>(out, g'). (printed_obs out, returned_diff out, printed_pval out, g'))
       (permutation_calculate_pvalue \<lparr>perm_lvl1 = lvl1, perm_lvl2 = lvl2\<rparr> ch g df R func)
   = map_sum id (\<lambda>((resampled, diff, pval), g'). (obs_diff func df lvl1 lvl2, diff, pval, g'))
       (run_hypothesis \<lparr>method = ''permutation''\<rparr> ch g df lvl1 lvl2 R func)"
proof (cases "func (group_values df lvl1)")
  case (Inl e)
  then show ?thesis by (simp add: permutation_cases run_hypothesis_cases)
next
  case a: (Inr a)
  show ?thesis
  proof (cases "func (group_values df lvl2)")
    case (Inl e)
    then show ?thesis using a by (simp add: permutation_cases run_hypothesis_cases)
  next
    case b: (Inr b)
    let ?dfr = "restricted df lvl1 lvl2"
    let ?run = "resampled_statistic lvl1 lvl2 R func (fsub a b)
                  (resample_loop ch (map target ?dfr) False (nat R) [map level ?dfr] g)"
    have a': "func (group_values ?dfr lvl1) = Inr a"
      using a by (simp add: group_values_restricted_left)
    have b': "func (group_values ?dfr lvl2) = Inr b"
      using b by (simp add: group_values_restricted_right)
    show ?thesis
    proof (cases ?run)
      case (Inl e)
      then show ?thesis using a b by (simp add: permutation_cases run_hypothesis_cases)
    next
      case (Inr res)
      obtain fr diff p g' where res: "res = ((fr, diff, p), g')" by (metis prod.collapse)
      have "1 \<le> R \<and> length diff = nat R"
        using resampled_statistic_length[OF Inr[unfolded res] a' b'] by blast
      then have "diff \<noteq> []" by auto
      then obtain yp where "marker_height diff = Inr yp" using marker_height_ok by blast
      then show ?thesis using a b Inr res
        by (simp add: permutation_cases run_hypothesis_cases obs_diff_returns[OF a b])
    qed
  qed
qed


text \<open>The definitions a concrete run is evaluated with.\<close>

lemmas engine_defs = run_hypothesis_def resampled_statistic_def estimate_ci_def sample_def
  concat_col_def rows_with_label_def rows_where_def loc_cols_def apply_cols_def percentile_def
  lerp_at_def np_mean_def np_percentile_def dfAB_def df10_def df5_def df7_def restricted_def
  group_values_def select_rows_def Let_def

section \<open>The claims\<close>

text \<open>
  C1. On a valid two-group input (a random source that keeps numpy's promise, a valid
  method, \<open>R \<ge> 1\<close>, both labels on at least one row, a statistic that is total over the
  non-empty columns of numbers) \<^verbatim>\<open>run_hypothesis\<close> returns. The frame is the one the
  resampling loop builds. The statistics \<open>s1\<close> and \<open>s2\<close> are those of the two parts of each
  resampled column, on the rows labelled \<open>lvl1\<close> and \<open>lvl2\<close>; the distribution is their
  differences, one per resample. The observed difference is the statistic \<open>a\<close> of the
  target values labelled \<open>lvl1\<close> minus the statistic \<open>b\<close> of those labelled \<open>lvl2\<close>, and
  the p-value is the number of differences that are at least the observed one, divided by
  \<open>R\<close>. The code tests \<open>(d - obs) \<ge> 0\<close>, which is \<open>d \<ge> obs\<close>, a test that NaN fails.
\<close>

theorem run_hypothesis_pvalue:
  assumes "valid_choice ch"
    and "method self = ''bootstrap'' \<or> method self = ''permutation''"
    and "1 \<le> R"
    and "lvl1 \<in> level ` set df" and "lvl2 \<in> level ` set df"
    and "total_statistic func"
  shows "\<exists>resampled g' a b s1 s2.
           resample_loop ch (map target (restricted df lvl1 lvl2)) (method self = ''bootstrap'')
               (nat R) [map level (restricted df lvl1 lvl2)] g = (resampled, g')
           \<and> func (group_values df lvl1) = Inr a
           \<and> func (group_values df lvl2) = Inr b
           \<and> map func (map (select_rows (hd resampled) lvl1) (tl resampled)) = map Inr s1
           \<and> map func (map (select_rows (hd resampled) lvl2) (tl resampled)) = map Inr s2
           \<and> int (length s1) = R \<and> int (length s2) = R
           \<and> run_hypothesis self ch g df lvl1 lvl2 R func =
               Inr ((resampled, map2 fsub s1 s2,
                     real (length (filter (\<lambda>d. fle (fsub a b) d) (map2 fsub s1 s2)))
                       / real_of_int R), g')"
proof -
  obtain a where a: "func (group_values df lvl1) = Inr a"
    using group_values_total[OF assms(6,4)] by blast
  obtain b where b: "func (group_values df lvl2) = Inr b"
    using group_values_total[OF assms(6,5)] by blast
  from run_hypothesis_returns[OF assms(1,2,3) a b assms(6), of g]
  show ?thesis using a b assms(3) by fastforce
qed

text \<open>
  Two permutation resamples of the targets 4, 3, 7, 5, group B against group A: the
  observed difference is 2.5, the resampled differences are 2.5 and -0.5, the p-value is
  one half.
\<close>

theorem run_hypothesis_pvalue_witness:
  "valid_choice replay_choice
   \<and> (method \<lparr>method = ''permutation''\<rparr> = ''bootstrap''
        \<or> method \<lparr>method = ''permutation''\<rparr> = ''permutation'')
   \<and> (1::int) \<le> 2
   \<and> Str ''B'' \<in> level ` set dfAB \<and> Str ''A'' \<in> level ` set dfAB
   \<and> total_statistic np_mean
   \<and> (\<exists>resampled g' a b s1 s2.
         resample_loop replay_choice (map target (restricted dfAB (Str ''B'') (Str ''A'')))
             (method \<lparr>method = ''permutation''\<rparr> = ''bootstrap'')
             (nat 2) [map level (restricted dfAB (Str ''B'') (Str ''A''))]
             [[0, 1, 2, 3], [2, 1, 0, 3]] = (resampled, g')
         \<and> np_mean (group_values dfAB (Str ''B'')) = Inr a
         \<and> np_mean (group_values dfAB (Str ''A'')) = Inr b
         \<and> map np_mean (map (select_rows (hd resampled) (Str ''B'')) (tl resampled)) = map Inr s1
         \<and> map np_mean (map (select_rows (hd resampled) (Str ''A'')) (tl resampled)) = map Inr s2
         \<and> int (length s1) = 2 \<and> int (length s2) = 2
         \<and> run_hypothesis \<lparr>method = ''permutation''\<rparr> replay_choice [[0, 1, 2, 3], [2, 1, 0, 3]]
               dfAB (Str ''B'') (Str ''A'') 2 np_mean =
             Inr ((resampled, map2 fsub s1 s2,
                   real (length (filter (\<lambda>d. fle (fsub a b) d) (map2 fsub s1 s2)))
                     / real_of_int 2), g'))
   \<and> run_hypothesis \<lparr>method = ''permutation''\<rparr> replay_choice [[0, 1, 2, 3], [2, 1, 0, 3]]
         dfAB (Str ''B'') (Str ''A'') 2 np_mean =
       Inr (([[Str ''A'', Str ''A'', Str ''B'', Str ''B''], [Num 4, Num 3, Num 7, Num 5],
              [Num 7, Num 3, Num 4, Num 5]], [Fin (5 / 2), Fin (- (1 / 2))], 1 / 2), [])"
proof -
  have v: "valid_choice replay_choice" by (rule valid_replay_choice)
  have m: "method \<lparr>method = ''permutation''\<rparr> = ''bootstrap''
           \<or> method \<lparr>method = ''permutation''\<rparr> = ''permutation''" by simp
  have r: "(1::int) \<le> 2" by simp
  have l1: "Str ''B'' \<in> level ` set dfAB" by (simp add: dfAB_def)
  have l2: "Str ''A'' \<in> level ` set dfAB" by (simp add: dfAB_def)
  have t: "total_statistic np_mean" by (rule total_np_mean)
  have e: "run_hypothesis \<lparr>method = ''permutation''\<rparr> replay_choice [[0, 1, 2, 3], [2, 1, 0, 3]]
         dfAB (Str ''B'') (Str ''A'') 2 np_mean =
       Inr (([[Str ''A'', Str ''A'', Str ''B'', Str ''B''], [Num 4, Num 3, Num 7, Num 5],
              [Num 7, Num 3, Num 4, Num 5]], [Fin (5 / 2), Fin (- (1 / 2))], 1 / 2), [])"
    by (simp add: engine_defs eval_nat_numeral)
  from run_hypothesis_pvalue[OF v m r l1 l2 t, of "[[0, 1, 2, 3], [2, 1, 0, 3]]"]
  show ?thesis using v m r l1 l2 t e by blast
qed

text \<open>
  C2. For a valid method and \<open>R \<ge> 1\<close>, every result that \<^verbatim>\<open>run_hypothesis\<close>
  returns, on any input, has a difference distribution of exactly \<open>R\<close> values; and on a
  valid two-group input it returns one.
\<close>

theorem run_hypothesis_length:
  assumes "method self = ''bootstrap'' \<or> method self = ''permutation''" and "1 \<le> R"
  shows "(\<forall>resampled diff pval g'.
            run_hypothesis self ch g df lvl1 lvl2 R func = Inr ((resampled, diff, pval), g')
            \<longrightarrow> int (length diff) = R)
       \<and> (valid_choice ch \<and> lvl1 \<in> level ` set df \<and> lvl2 \<in> level ` set df
            \<and> total_statistic func
          \<longrightarrow> (\<exists>resampled diff pval g'.
                 run_hypothesis self ch g df lvl1 lvl2 R func = Inr ((resampled, diff, pval), g')
                 \<and> int (length diff) = R))"
proof (intro conjI allI impI)
  fix resampled diff pval g'
  assume "run_hypothesis self ch g df lvl1 lvl2 R func = Inr ((resampled, diff, pval), g')"
  from run_hypothesis_inversion[OF this] show "int (length diff) = R" by simp
next
  assume h: "valid_choice ch \<and> lvl1 \<in> level ` set df \<and> lvl2 \<in> level ` set df
            \<and> total_statistic func"
  obtain a where a: "func (group_values df lvl1) = Inr a"
    using group_values_total[of func lvl1 df] h by blast
  obtain b where b: "func (group_values df lvl2) = Inr b"
    using group_values_total[of func lvl2 df] h by blast
  obtain resampled g' s1 s2 where
    run: "run_hypothesis self ch g df lvl1 lvl2 R func =
               Inr ((resampled, map2 fsub s1 s2,
                     real (length (filter (\<lambda>d. fle (fsub a b) d) (map2 fsub s1 s2)))
                       / real_of_int R), g')"
    using run_hypothesis_returns[OF _ assms(1,2) a b, of ch g] h by blast
  from run_hypothesis_inversion[OF run] have "int (length (map2 fsub s1 s2)) = R" by simp
  then show "\<exists>resampled diff pval g'.
                 run_hypothesis self ch g df lvl1 lvl2 R func = Inr ((resampled, diff, pval), g')
                 \<and> int (length diff) = R"
    using run by blast
qed

text \<open>
  Three bootstrap resamples give three differences.
\<close>

theorem run_hypothesis_length_witness:
  "(method \<lparr>method = ''bootstrap''\<rparr> = ''bootstrap''
        \<or> method \<lparr>method = ''bootstrap''\<rparr> = ''permutation'')
   \<and> (1::int) \<le> 3
   \<and> valid_choice replay_choice
   \<and> Str ''A'' \<in> level ` set dfAB \<and> Str ''B'' \<in> level ` set dfAB
   \<and> total_statistic np_mean
   \<and> (\<exists>resampled diff pval g'.
         run_hypothesis \<lparr>method = ''bootstrap''\<rparr> replay_choice [[0, 0, 3, 3], [1, 1, 2, 2]]
             dfAB (Str ''A'') (Str ''B'') 3 np_mean = Inr ((resampled, diff, pval), g')
         \<and> int (length diff) = 3)
   \<and> run_hypothesis \<lparr>method = ''bootstrap''\<rparr> replay_choice [[0, 0, 3, 3], [1, 1, 2, 2]]
         dfAB (Str ''A'') (Str ''B'') 3 np_mean =
       Inr (([[Str ''A'', Str ''A'', Str ''B'', Str ''B''], [Num 4, Num 4, Num 5, Num 5],
              [Num 3, Num 3, Num 7, Num 7], [Num 4, Num 3, Num 7, Num 5]],
             [Fin (- 1), Fin (- 4), Fin (- (5 / 2))], 2 / 3), [])"
proof -
  have m: "method \<lparr>method = ''bootstrap''\<rparr> = ''bootstrap''
        \<or> method \<lparr>method = ''bootstrap''\<rparr> = ''permutation''" by simp
  have r: "(1::int) \<le> 3" by simp
  have h: "valid_choice replay_choice
           \<and> Str ''A'' \<in> level ` set dfAB \<and> Str ''B'' \<in> level ` set dfAB
           \<and> total_statistic np_mean"
    using valid_replay_choice total_np_mean by (simp add: dfAB_def)
  have e: "run_hypothesis \<lparr>method = ''bootstrap''\<rparr> replay_choice [[0, 0, 3, 3], [1, 1, 2, 2]]
         dfAB (Str ''A'') (Str ''B'') 3 np_mean =
       Inr (([[Str ''A'', Str ''A'', Str ''B'', Str ''B''], [Num 4, Num 4, Num 5, Num 5],
              [Num 3, Num 3, Num 7, Num 7], [Num 4, Num 3, Num 7, Num 5]],
             [Fin (- 1), Fin (- 4), Fin (- (5 / 2))], 2 / 3), [])"
    by (simp add: engine_defs eval_nat_numeral)
  from run_hypothesis_length[OF m r, of replay_choice "[[0, 0, 3, 3], [1, 1, 2, 2]]" dfAB
      "Str ''A''" "Str ''B''" np_mean]
  show ?thesis using m r h e by blast
qed

text \<open>
  C3 says that a label that selects no row makes \<^verbatim>\<open>run_hypothesis\<close> and
  \<^verbatim>\<open>estimate_ci\<close> fail with EmptyGroup before any resampling. The code has no such
  check. On the dataset with labels A, A, B, B, the label C selects nothing, and with
  \<^verbatim>\<open>np.mean\<close> both calls return: the mean of the empty group is NaN,
  \<^verbatim>\<open>run_hypothesis\<close> draws its two resamples and returns two NaN differences and the
  p-value 0, \<^verbatim>\<open>estimate_ci\<close> returns two NaN and NaN bounds.
\<close>

theorem absent_label_counterexample:
  "run_hypothesis \<lparr>method = ''bootstrap''\<rparr> replay_choice [] dfAB (Str ''A'') (Str ''C'') 2 np_mean =
     Inr (([[Str ''A'', Str ''A''], [Num 4, Num 3], [Num 4, Num 3]], [NaN, NaN], 0), [])
   \<and> estimate_ci \<lparr>method = ''bootstrap''\<rparr> replay_choice [] dfAB (Str ''C'') 2 np_mean 0.05 =
     Inr (([NaN, NaN], NaN, NaN), [])"
  by (simp add: engine_defs eval_nat_numeral)

text \<open>
  C3, amended. Neither operation checks for an empty group: the statistic is applied to
  the empty column. Let a label select no row, on a random source that keeps numpy's
  promise, with a valid method, \<open>R \<ge> 1\<close>, \<open>alpha_level\<close> in \<open>(0,1)\<close> and a statistic that is
  total over the non-empty columns of numbers. When the statistic raises on the empty
  column, \<^verbatim>\<open>run_hypothesis\<close>, with the label in either position, fails with that
  exception, raised at line 79 before the resampling block. When the statistic returns
  \<open>v\<close> on the empty column, \<^verbatim>\<open>run_hypothesis\<close> runs its \<open>R\<close> iterations and returns:
  the statistic of the empty group is \<open>v\<close> in the observed difference and in each of the
  \<open>R\<close> differences; and \<^verbatim>\<open>estimate_ci\<close> under the bootstrap method returns \<open>R\<close>
  copies of \<open>v\<close> and \<open>v\<close> as both bounds.
\<close>

theorem absent_label_behaviour:
  assumes vc: "valid_choice ch" and ab: "lvl \<notin> level ` set df"
    and m: "method self = ''bootstrap'' \<or> method self = ''permutation''"
    and R1: "1 \<le> R" and a0: "0 < alpha_level" and a1: "alpha_level < 1"
    and tot: "total_statistic func"
  shows "(\<forall>e. func [] = Inl e \<longrightarrow>
            run_hypothesis self ch g df lvl1 lvl R func = Inl e
            \<and> run_hypothesis self ch g df lvl lvl2 R func = Inl e)
       \<and> (\<forall>v. func [] = Inr v \<longrightarrow>
            (\<exists>resampled g' a s1.
               resample_loop ch (map target (restricted df lvl1 lvl)) (method self = ''bootstrap'')
                   (nat R) [map level (restricted df lvl1 lvl)] g = (resampled, g')
               \<and> func (group_values df lvl1) = Inr a
               \<and> map func (map (select_rows (hd resampled) lvl1) (tl resampled)) = map Inr s1
               \<and> int (length s1) = R
               \<and> run_hypothesis self ch g df lvl1 lvl R func =
                   Inr ((resampled, map (\<lambda>s. fsub s v) s1,
                         real (length (filter (\<lambda>d. fle (fsub a v) d) (map (\<lambda>s. fsub s v) s1)))
                           / real_of_int R), g'))
            \<and> (\<exists>resampled g' b s2.
               resample_loop ch (map target (restricted df lvl lvl2)) (method self = ''bootstrap'')
                   (nat R) [map level (restricted df lvl lvl2)] g = (resampled, g')
               \<and> func (group_values df lvl2) = Inr b
               \<and> map func (map (select_rows (hd resampled) lvl2) (tl resampled)) = map Inr s2
               \<and> int (length s2) = R
               \<and> run_hypothesis self ch g df lvl lvl2 R func =
                   Inr ((resampled, map (\<lambda>s. fsub v s) s2,
                         real (length (filter (\<lambda>d. fle (fsub v b) d) (map (\<lambda>s. fsub v s) s2)))
                           / real_of_int R), g'))
            \<and> (\<exists>g'. estimate_ci \<lparr>method = ''bootstrap''\<rparr> ch g df lvl R func alpha_level =
                      Inr ((replicate (nat R) v, v, v), g')))"
proof (rule conjI; intro allI impI)
  fix e assume "func [] = Inl e"
  then show "run_hypothesis self ch g df lvl1 lvl R func = Inl e
            \<and> run_hypothesis self ch g df lvl lvl2 R func = Inl e"
    by (rule absent_raises[OF ab tot])
next
  fix v assume v: "func [] = Inr v"
  show "(\<exists>resampled g' a s1.
               resample_loop ch (map target (restricted df lvl1 lvl)) (method self = ''bootstrap'')
                   (nat R) [map level (restricted df lvl1 lvl)] g = (resampled, g')
               \<and> func (group_values df lvl1) = Inr a
               \<and> map func (map (select_rows (hd resampled) lvl1) (tl resampled)) = map Inr s1
               \<and> int (length s1) = R
               \<and> run_hypothesis self ch g df lvl1 lvl R func =
                   Inr ((resampled, map (\<lambda>s. fsub s v) s1,
                         real (length (filter (\<lambda>d. fle (fsub a v) d) (map (\<lambda>s. fsub s v) s1)))
                           / real_of_int R), g'))
            \<and> (\<exists>resampled g' b s2.
               resample_loop ch (map target (restricted df lvl lvl2)) (method self = ''bootstrap'')
                   (nat R) [map level (restricted df lvl lvl2)] g = (resampled, g')
               \<and> func (group_values df lvl2) = Inr b
               \<and> map func (map (select_rows (hd resampled) lvl2) (tl resampled)) = map Inr s2
               \<and> int (length s2) = R
               \<and> run_hypothesis self ch g df lvl lvl2 R func =
                   Inr ((resampled, map (\<lambda>s. fsub v s) s2,
                         real (length (filter (\<lambda>d. fle (fsub v b) d) (map (\<lambda>s. fsub v s) s2)))
                           / real_of_int R), g'))
            \<and> (\<exists>g'. estimate_ci \<lparr>method = ''bootstrap''\<rparr> ch g df lvl R func alpha_level =
                      Inr ((replicate (nat R) v, v, v), g'))"
    using absent_second[OF vc ab m R1 tot v, of lvl1 g]
      absent_first[OF vc ab m R1 tot v, of lvl2 g]
      estimate_ci_absent[where func=func and v=v and ch=ch and g=g, OF ab R1 a0 a1 v]
    by (intro conjI)
qed

text \<open>
  The absent label C on the dataset with labels A, A, B, B and three resamples: with
  \<^verbatim>\<open>np.percentile(x, 50)\<close> the call fails with the IndexError of the statistic, with
  \<^verbatim>\<open>np.mean\<close> it returns NaN differences.
\<close>

theorem absent_label_behaviour_witness:
  "valid_choice replay_choice \<and> Str ''C'' \<notin> level ` set dfAB
   \<and> (method \<lparr>method = ''permutation''\<rparr> = ''bootstrap''
        \<or> method \<lparr>method = ''permutation''\<rparr> = ''permutation'')
   \<and> (1::int) \<le> 3 \<and> (0::real) < 1 / 2 \<and> (1 / 2 :: real) < 1
   \<and> total_statistic np_mean \<and> total_statistic (np_percentile 50)
   \<and> np_percentile 50 [] = Inl IndexError \<and> np_mean [] = Inr NaN
   \<and> run_hypothesis \<lparr>method = ''permutation''\<rparr> replay_choice [[1, 0]] dfAB
         (Str ''B'') (Str ''C'') 3 (np_percentile 50) = Inl IndexError
   \<and> run_hypothesis \<lparr>method = ''permutation''\<rparr> replay_choice [[1, 0]] dfAB
         (Str ''C'') (Str ''B'') 3 (np_percentile 50) = Inl IndexError
   \<and> (\<exists>resampled g' a s1.
         resample_loop replay_choice (map target (restricted dfAB (Str ''B'') (Str ''C'')))
             (method \<lparr>method = ''permutation''\<rparr> = ''bootstrap'') (nat 3)
             [map level (restricted dfAB (Str ''B'') (Str ''C''))] [[1, 0]] = (resampled, g')
         \<and> np_mean (group_values dfAB (Str ''B'')) = Inr a
         \<and> map np_mean (map (select_rows (hd resampled) (Str ''B'')) (tl resampled)) = map Inr s1
         \<and> int (length s1) = 3
         \<and> run_hypothesis \<lparr>method = ''permutation''\<rparr> replay_choice [[1, 0]] dfAB
               (Str ''B'') (Str ''C'') 3 np_mean =
             Inr ((resampled, map (\<lambda>s. fsub s NaN) s1,
                   real (length (filter (\<lambda>d. fle (fsub a NaN) d) (map (\<lambda>s. fsub s NaN) s1)))
                     / real_of_int 3), g'))
   \<and> (\<exists>g'. estimate_ci \<lparr>method = ''bootstrap''\<rparr> replay_choice [[1, 0]] dfAB (Str ''C'') 3
               np_mean (1 / 2) = Inr ((replicate (nat 3) NaN, NaN, NaN), g'))
   \<and> run_hypothesis \<lparr>method = ''permutation''\<rparr> replay_choice [[1, 0]] dfAB
         (Str ''B'') (Str ''C'') 3 np_mean =
       Inr (([[Str ''B'', Str ''B''], [Num 5, Num 7], [Num 7, Num 5], [Num 7, Num 5]],
             [NaN, NaN, NaN], 0), [])"
proof -
  have v: "valid_choice replay_choice" by (rule valid_replay_choice)
  have a: "Str ''C'' \<notin> level ` set dfAB" by (simp add: dfAB_def)
  have m: "method \<lparr>method = ''permutation''\<rparr> = ''bootstrap''
           \<or> method \<lparr>method = ''permutation''\<rparr> = ''permutation''" by simp
  have r: "(1::int) \<le> 3" by simp
  have a0: "(0::real) < 1 / 2" by simp
  have a1: "(1 / 2 :: real) < 1" by simp
  have t1: "total_statistic np_mean" by (rule total_np_mean)
  have t2: "total_statistic (np_percentile 50)" by (rule total_np_percentile) simp_all
  have p: "np_percentile 50 [] = Inl IndexError"
    by (simp add: np_percentile_def percentile_def)
  have n: "np_mean [] = Inr NaN" by (simp add: np_mean_def)
  have e: "run_hypothesis \<lparr>method = ''permutation''\<rparr> replay_choice [[1, 0]] dfAB
         (Str ''B'') (Str ''C'') 3 np_mean =
       Inr (([[Str ''B'', Str ''B''], [Num 5, Num 7], [Num 7, Num 5], [Num 7, Num 5]],
             [NaN, NaN, NaN], 0), [])"
    by (simp add: engine_defs eval_nat_numeral)
  from absent_label_behaviour[OF v a m r a0 a1 t2, of "[[1, 0]]" "Str ''B''" "Str ''B''"]
  have raise: "run_hypothesis \<lparr>method = ''permutation''\<rparr> replay_choice [[1, 0]] dfAB
         (Str ''B'') (Str ''C'') 3 (np_percentile 50) = Inl IndexError
     \<and> run_hypothesis \<lparr>method = ''permutation''\<rparr> replay_choice [[1, 0]] dfAB
         (Str ''C'') (Str ''B'') 3 (np_percentile 50) = Inl IndexError"
    using p by blast
  from absent_label_behaviour[OF v a m r a0 a1 t1, of "[[1, 0]]" "Str ''B''" "Str ''B''"]
  have ret: "(\<exists>resampled g' a s1.
         resample_loop replay_choice (map target (restricted dfAB (Str ''B'') (Str ''C'')))
             (method \<lparr>method = ''permutation''\<rparr> = ''bootstrap'') (nat 3)
             [map level (restricted dfAB (Str ''B'') (Str ''C''))] [[1, 0]] = (resampled, g')
         \<and> np_mean (group_values dfAB (Str ''B'')) = Inr a
         \<and> map np_mean (map (select_rows (hd resampled) (Str ''B'')) (tl resampled)) = map Inr s1
         \<and> int (length s1) = 3
         \<and> run_hypothesis \<lparr>method = ''permutation''\<rparr> replay_choice [[1, 0]] dfAB
               (Str ''B'') (Str ''C'') 3 np_mean =
             Inr ((resampled, map (\<lambda>s. fsub s NaN) s1,
                   real (length (filter (\<lambda>d. fle (fsub a NaN) d) (map (\<lambda>s. fsub s NaN) s1)))
                     / real_of_int 3), g'))
   \<and> (\<exists>g'. estimate_ci \<lparr>method = ''bootstrap''\<rparr> replay_choice [[1, 0]] dfAB (Str ''C'') 3
               np_mean (1 / 2) = Inr ((replicate (nat 3) NaN, NaN, NaN), g'))"
    using n by blast
  show ?thesis using v a m r a0 a1 t1 t2 p n raise ret e by blast
qed

text \<open>
  C4 says that \<open>R < 1\<close> makes \<^verbatim>\<open>run_hypothesis\<close> fail with InvalidArgument. The code
  does not validate \<open>R\<close>: with \<open>R = 0\<close> the loop body never runs, and the call ends in
  the KeyError of the lookup of column 0, after the observed difference was computed.
\<close>

theorem run_hypothesis_R_zero_counterexample:
  "run_hypothesis \<lparr>method = ''bootstrap''\<rparr> replay_choice [] dfAB (Str ''A'') (Str ''B'') 0 np_mean
     = Inl KeyError"
  by (simp add: engine_defs)

text \<open>
  C4, amended. For every input with \<open>R < 1\<close>, \<^verbatim>\<open>run_hypothesis\<close> returns no result;
  with a valid method and a statistic that returns on both groups, no resampling iteration
  runs and the call raises KeyError at the lookup \<^verbatim>\<open>resampled_.loc[:, 0]\<close>.
\<close>

theorem run_hypothesis_R_below_1:
  assumes "R < 1"
  shows "(\<exists>e. run_hypothesis self ch g df lvl1 lvl2 R func = Inl e)
       \<and> ((method self = ''bootstrap'' \<or> method self = ''permutation'')
            \<and> (\<exists>a. func (group_values df lvl1) = Inr a)
            \<and> (\<exists>b. func (group_values df lvl2) = Inr b)
          \<longrightarrow> run_hypothesis self ch g df lvl1 lvl2 R func = Inl KeyError)"
proof (rule conjI)
  show "\<exists>e. run_hypothesis self ch g df lvl1 lvl2 R func = Inl e"
    by (rule run_hypothesis_no_result[OF assms])
  show "(method self = ''bootstrap'' \<or> method self = ''permutation'')
            \<and> (\<exists>a. func (group_values df lvl1) = Inr a)
            \<and> (\<exists>b. func (group_values df lvl2) = Inr b)
          \<longrightarrow> run_hypothesis self ch g df lvl1 lvl2 R func = Inl KeyError"
  proof
    assume h: "(method self = ''bootstrap'' \<or> method self = ''permutation'')
            \<and> (\<exists>a. func (group_values df lvl1) = Inr a)
            \<and> (\<exists>b. func (group_values df lvl2) = Inr b)"
    then obtain a b where a: "func (group_values df lvl1) = Inr a"
      and b: "func (group_values df lvl2) = Inr b" by blast
    from h have m: "method self = ''bootstrap'' \<or> method self = ''permutation''" by blast
    show "run_hypothesis self ch g df lvl1 lvl2 R func = Inl KeyError"
      by (rule run_hypothesis_KeyError[OF assms m a b])
  qed
qed

text \<open>
  A negative repetition count.
\<close>

theorem run_hypothesis_R_below_1_witness:
  "(- 3 :: int) < 1
   \<and> (method \<lparr>method = ''permutation''\<rparr> = ''bootstrap''
        \<or> method \<lparr>method = ''permutation''\<rparr> = ''permutation'')
   \<and> np_mean (group_values dfAB (Str ''A'')) = Inr (Fin (7 / 2))
   \<and> np_mean (group_values dfAB (Str ''B'')) = Inr (Fin 6)
   \<and> (\<exists>e. run_hypothesis \<lparr>method = ''permutation''\<rparr> replay_choice [[0, 1, 2, 3]] dfAB
              (Str ''A'') (Str ''B'') (- 3) np_mean = Inl e)
   \<and> run_hypothesis \<lparr>method = ''permutation''\<rparr> replay_choice [[0, 1, 2, 3]] dfAB
         (Str ''A'') (Str ''B'') (- 3) np_mean = Inl KeyError"
proof -
  have r: "(- 3 :: int) < 1" by simp
  have m: "method \<lparr>method = ''permutation''\<rparr> = ''bootstrap''
           \<or> method \<lparr>method = ''permutation''\<rparr> = ''permutation''" by simp
  have a: "np_mean (group_values dfAB (Str ''A'')) = Inr (Fin (7 / 2))"
    by (simp add: np_mean_def group_values_def dfAB_def)
  have b: "np_mean (group_values dfAB (Str ''B'')) = Inr (Fin 6)"
    by (simp add: np_mean_def group_values_def dfAB_def)
  from run_hypothesis_R_below_1[OF r, of "\<lparr>method = ''permutation''\<rparr>" replay_choice
      "[[0, 1, 2, 3]]" dfAB "Str ''A''" "Str ''B''" np_mean]
  show ?thesis using r m a b by blast
qed

text \<open>
  C5. An engine built with the permutation method exists, and on it
  \<^verbatim>\<open>estimate_ci\<close> ends with the exit message that only the bootstrap method supports a
  confidence interval, whatever the other arguments: no distribution is returned.
\<close>

theorem estimate_ci_permutation:
  "Resample_init ''permutation'' = Inr \<lparr>method = ''permutation''\<rparr>
   \<and> estimate_ci \<lparr>method = ''permutation''\<rparr> ch g df lvl R func alpha_level =
       Inl (SystemExit ''confidence interval can be estimated only for bootstrap method'')"
  by (simp add: Resample_init_def estimate_ci_def)

text \<open>
  C6 says that the interval is the pair of percentiles of the distribution and that, when
  every resampled statistic is the same value \<open>v\<close>, both bounds are \<open>v\<close>. The percentiles
  are taken as the claim says (lemma \<open>estimate_ci_inversion\<close>), but the distribution is not
  the \<open>R\<close> resampled statistics: its first entry is the statistic of the grouping column
  (lemma \<open>estimate_ci_first_entry\<close>). On the scenario of the specification, the target
  values 10, 10, 10 under the numeric label 0 with \<open>R = 5\<close> and the mean, every resample
  has mean 10, and the code returns the distribution 0, 10, 10, 10, 10 and the interval
  \<open>(10, 1)\<close> where the claim says \<open>(10, 10)\<close>.
\<close>

theorem estimate_ci_point_mass_failing:
  "estimate_ci \<lparr>method = ''bootstrap''\<rparr> replay_choice [] df10 (Num 0) 5 np_mean 0.05
     = Inr (([Fin 0, Fin 10, Fin 10, Fin 10, Fin 10], Fin 10, Fin 1), [])"
  by (simp add: engine_defs eval_nat_numeral)




text \<open>
  C8. With a random source that keeps numpy's promise, every resample that
  \<^verbatim>\<open>run_hypothesis\<close> draws under the permutation method (the columns of a returned
  frame after the label column, \<open>R\<close> of them) is a permutation of the target column of
  the restricted rows: the same multiset of values and the same length. On a valid
  two-group input the call returns.
\<close>

theorem permutation_resamples:
  assumes "valid_choice ch"
  shows "(\<forall>resampled diff pval g'.
            run_hypothesis \<lparr>method = ''permutation''\<rparr> ch g df lvl1 lvl2 R func
              = Inr ((resampled, diff, pval), g')
            \<longrightarrow> int (length (tl resampled)) = R
                \<and> (\<forall>c\<in>set (tl resampled).
                      mset c = mset (map Num (map target (restricted df lvl1 lvl2)))
                      \<and> length c = length (restricted df lvl1 lvl2)))
       \<and> (1 \<le> R \<and> lvl1 \<in> level ` set df \<and> lvl2 \<in> level ` set df \<and> total_statistic func
          \<longrightarrow> (\<exists>resampled diff pval g'.
                 run_hypothesis \<lparr>method = ''permutation''\<rparr> ch g df lvl1 lvl2 R func
                   = Inr ((resampled, diff, pval), g')))"
proof (rule conjI, intro allI impI)
  fix resampled diff pval g'
  let ?dfr = "restricted df lvl1 lvl2"
  assume "run_hypothesis \<lparr>method = ''permutation''\<rparr> ch g df lvl1 lvl2 R func
              = Inr ((resampled, diff, pval), g')"
  from run_hypothesis_inversion[OF this]
  have R1: "1 \<le> R"
    and loop: "resample_loop ch (map target ?dfr) False (nat R) [map level ?dfr] g
                 = (resampled, g')"
    by simp_all
  obtain bs where fr: "resampled = [map level ?dfr] @ map (map Num) bs"
    and lb: "length bs = nat R"
    and draws: "\<forall>b\<in>set bs. length b = length (map target ?dfr)
                  \<and> (\<not> False \<longrightarrow> mset b = mset (map target ?dfr))"
    using resample_loop_draws[OF assms, of "map target ?dfr" False "nat R" "[map level ?dfr]" g]
      loop by auto
  have tl: "tl resampled = map (map Num) bs" by (simp add: fr)
  have "\<forall>c\<in>set (tl resampled). mset c = mset (map Num (map target ?dfr))
          \<and> length c = length ?dfr"
  proof
    fix c assume "c \<in> set (tl resampled)"
    then obtain b where b: "b \<in> set bs" "c = map Num b" unfolding tl by auto
    have "mset b = mset (map target ?dfr)" "length b = length ?dfr" using draws b(1) by auto
    then show "mset c = mset (map Num (map target ?dfr)) \<and> length c = length ?dfr"
      unfolding b(2) by (metis length_map mset_map)
  qed
  then show "int (length (tl resampled)) = R
                \<and> (\<forall>c\<in>set (tl resampled).
                      mset c = mset (map Num (map target (restricted df lvl1 lvl2)))
                      \<and> length c = length (restricted df lvl1 lvl2))"
    using tl lb R1 by simp
next
  show "1 \<le> R \<and> lvl1 \<in> level ` set df \<and> lvl2 \<in> level ` set df \<and> total_statistic func
          \<longrightarrow> (\<exists>resampled diff pval g'.
                 run_hypothesis \<lparr>method = ''permutation''\<rparr> ch g df lvl1 lvl2 R func
                   = Inr ((resampled, diff, pval), g'))"
  proof
  assume h: "1 \<le> R \<and> lvl1 \<in> level ` set df \<and> lvl2 \<in> level ` set df
               \<and> total_statistic func"
  have m: "method \<lparr>method = ''permutation''\<rparr> = ''bootstrap''
           \<or> method \<lparr>method = ''permutation''\<rparr> = ''permutation''" by simp
  obtain a where a: "func (group_values df lvl1) = Inr a"
    using group_values_total[of func lvl1 df] h by blast
  obtain b where b: "func (group_values df lvl2) = Inr b"
    using group_values_total[of func lvl2 df] h by blast
  show "\<exists>resampled diff pval g'.
                 run_hypothesis \<lparr>method = ''permutation''\<rparr> ch g df lvl1 lvl2 R func
                   = Inr ((resampled, diff, pval), g')"
    using run_hypothesis_returns[OF assms m _ a b, of R g] h by blast
  qed
qed

text \<open>
  Two shuffles of the target values 4, 3, 7, 5.
\<close>

theorem permutation_resamples_witness:
  "valid_choice replay_choice \<and> (1::int) \<le> 2
   \<and> Str ''A'' \<in> level ` set dfAB \<and> Str ''B'' \<in> level ` set dfAB
   \<and> total_statistic np_mean
   \<and> run_hypothesis \<lparr>method = ''permutation''\<rparr> replay_choice [[1, 2, 3, 0], [3, 0, 2, 1]] dfAB
              (Str ''A'') (Str ''B'') 2 np_mean
        = Inr (([[Str ''A'', Str ''A'', Str ''B'', Str ''B''], [Num 3, Num 7, Num 5, Num 4],
                 [Num 5, Num 4, Num 7, Num 3]], [Fin (1 / 2), Fin (- (1 / 2))], 1), [])
   \<and> int (length (tl [[Str ''A'', Str ''A'', Str ''B'', Str ''B''], [Num 3, Num 7, Num 5, Num 4],
                 [Num 5, Num 4, Num 7, Num 3]])) = 2
   \<and> list_all (\<lambda>c. mset c = mset (map Num (map target (restricted dfAB (Str ''A'') (Str ''B''))))
                  \<and> length c = length (restricted dfAB (Str ''A'') (Str ''B'')))
        (tl [[Str ''A'', Str ''A'', Str ''B'', Str ''B''], [Num 3, Num 7, Num 5, Num 4],
                 [Num 5, Num 4, Num 7, Num 3]])
   \<and> (\<exists>resampled diff pval g'.
          run_hypothesis \<lparr>method = ''permutation''\<rparr> replay_choice [[1, 2, 3, 0], [3, 0, 2, 1]] dfAB
              (Str ''A'') (Str ''B'') 2 np_mean
            = Inr ((resampled, diff, pval), g'))"
proof -
  have v: "valid_choice replay_choice" by (rule valid_replay_choice)
  have r: "(1::int) \<le> 2" by simp
  have l: "Str ''A'' \<in> level ` set dfAB \<and> Str ''B'' \<in> level ` set dfAB"
    by (simp add: dfAB_def)
  have t: "total_statistic np_mean" by (rule total_np_mean)
  have e: "run_hypothesis \<lparr>method = ''permutation''\<rparr> replay_choice [[1, 2, 3, 0], [3, 0, 2, 1]] dfAB
              (Str ''A'') (Str ''B'') 2 np_mean
        = Inr (([[Str ''A'', Str ''A'', Str ''B'', Str ''B''], [Num 3, Num 7, Num 5, Num 4],
                 [Num 5, Num 4, Num 7, Num 3]], [Fin (1 / 2), Fin (- (1 / 2))], 1), [])"
    by (simp add: engine_defs eval_nat_numeral)
  from permutation_resamples[OF v, of "[[1, 2, 3, 0], [3, 0, 2, 1]]" dfAB
      "Str ''A''" "Str ''B''" 2 np_mean]
  show ?thesis using v r l t e unfolding list_all_iff by blast
qed

text \<open>
  C10. For every dataset, statistic, repetition count and random source,
  \<^verbatim>\<open>Bootstrap.calculate_pvalue\<close> and \<^verbatim>\<open>run_hypothesis\<close> under the bootstrap method
  fail with the same error or agree on the observed difference (printed by the legacy
  class), the difference distribution, the p-value (printed by the legacy class) and the
  state the random source is left in; likewise \<^verbatim>\<open>permutation.calculate_pvalue\<close> and
  \<^verbatim>\<open>run_hypothesis\<close> under the permutation method.
\<close>

theorem legacy_refinement:
  "map_sum id (\<lambda>(out, g'). (printed_obs out, returned_diff out, printed_pval out, g'))
       (Bootstrap_calculate_pvalue \<lparr>boot_lvl1 = lvl1, boot_lvl2 = lvl2\<rparr> ch g df R func)
     = map_sum id (\<lambda>((resampled, diff, pval), g'). (obs_diff func df lvl1 lvl2, diff, pval, g'))
         (run_hypothesis \<lparr>method = ''bootstrap''\<rparr> ch g df lvl1 lvl2 R func)
   \<and> map_sum id (\<lambda>(out, g'). (printed_obs out, returned_diff out, printed_pval out, g'))
       (permutation_calculate_pvalue \<lparr>perm_lvl1 = lvl1, perm_lvl2 = lvl2\<rparr> ch g df R func)
     = map_sum id (\<lambda>((resampled, diff, pval), g'). (obs_diff func df lvl1 lvl2, diff, pval, g'))
         (run_hypothesis \<lparr>method = ''permutation''\<rparr> ch g df lvl1 lvl2 R func)"
  by (rule conjI[OF Bootstrap_refines permutation_refines])

end
